theory Spec2Isabelle
  imports Main "HOL-Library.Word"
begin

unbundle bit_operations_syntax

section \<open>Bytes, memory regions and the target's integer types\<close>

text \<open>
  The code runs on a little-endian 32-bit target: \<open>size_t\<close>, \<open>int\<close> and \<open>long\<close> are
  32 bits wide. A pointer such as \<open>void *destination\<close> is modelled by the memory region it
  points to, addressed by the byte offset from the pointer (\<open>destination + n\<close> is offset
  \<open>n\<close>). The C code never checks an offset against the size of the object, so a region
  has no length: the bytes behind the object are part of it. Distinct pointer arguments are
  distinct regions.
\<close>

type_synonym u8 = "8 word"
type_synonym u16 = "16 word"
type_synonym u32 = "32 word"
type_synonym mem = "nat \<Rightarrow> u8"

text \<open>Byte \<open>k\<close> of a little-endian integer: \<open>((uint8_t *)&x)[k]\<close>.\<close>

definition byte16 :: "u16 \<Rightarrow> nat \<Rightarrow> u8" where
  "byte16 x k = ucast (drop_bit (8 * k) x)"

definition byte32 :: "u32 \<Rightarrow> nat \<Rightarrow> u8" where
  "byte32 x k = ucast (drop_bit (8 * k) x)"

text \<open>The integer whose bytes, lowest address first, are the arguments.\<close>

definition le16 :: "u8 \<Rightarrow> u8 \<Rightarrow> u16" where
  "le16 b0 b1 = ucast b0 OR push_bit 8 (ucast b1)"

definition le32 :: "u8 \<Rightarrow> u8 \<Rightarrow> u8 \<Rightarrow> u8 \<Rightarrow> u32" where
  "le32 b0 b1 b2 b3 =
     ucast b0 OR push_bit 8 (ucast b1) OR push_bit 16 (ucast b2) OR push_bit 24 (ucast b3)"

text \<open>\<open>*(uint16_t *)(p + n)\<close> and \<open>*(uint32_t *)(p + n)\<close>, read and written.\<close>

definition read_u16 :: "mem \<Rightarrow> nat \<Rightarrow> u16" where
  "read_u16 m n = le16 (m n) (m (n + 1))"

definition read_u32 :: "mem \<Rightarrow> nat \<Rightarrow> u32" where
  "read_u32 m n = le32 (m n) (m (n + 1)) (m (n + 2)) (m (n + 3))"

definition write_u16 :: "mem \<Rightarrow> nat \<Rightarrow> u16 \<Rightarrow> mem" where
  "write_u16 m n v = m(n := byte16 v 0, n + 1 := byte16 v 1)"

definition write_u32 :: "mem \<Rightarrow> nat \<Rightarrow> u32 \<Rightarrow> mem" where
  "write_u32 m n v =
     m(n := byte32 v 0, n + 1 := byte32 v 1, n + 2 := byte32 v 2, n + 3 := byte32 v 3)"

text \<open>\<open>bswap16\<close> and \<open>bswap32\<close> of \<open>endian.h\<close> reverse the bytes of their argument.\<close>

definition bswap16 :: "u16 \<Rightarrow> u16" where
  "bswap16 v = le16 (byte16 v 1) (byte16 v 0)"

definition bswap32 :: "u32 \<Rightarrow> u32" where
  "bswap32 v = le32 (byte32 v 3) (byte32 v 2) (byte32 v 1) (byte32 v 0)"

text \<open>\<open>memcpy\<close>/\<open>memmove\<close> of \<open>len\<close> bytes from \<open>src + s\<close> to \<open>dst + d\<close> (distinct regions).\<close>

definition memmove :: "mem \<Rightarrow> nat \<Rightarrow> mem \<Rightarrow> nat \<Rightarrow> nat \<Rightarrow> mem" where
  "memmove dst d src s len = (\<lambda>i. if d \<le> i \<and> i < d + len then src (s + (i - d)) else dst i)"

section \<open>UIDs\<close>

text \<open>
  \<open>rdm_uid_t\<close> is declared in \<open>rdm/types.h\<close>; the code uses it as a packed 6-byte struct:
  \<open>man_id\<close> (16 bits) at offset 0 and \<open>dev_id\<close> (32 bits) at offset 2.
\<close>

record rdm_uid =
  man_id :: u16
  dev_id :: u32

definition uid_of_mem :: "mem \<Rightarrow> nat \<Rightarrow> rdm_uid" where
  "uid_of_mem m n = \<lparr>man_id = read_u16 m n, dev_id = read_u32 m (n + 2)\<rparr>"

definition uid_to_mem :: "mem \<Rightarrow> nat \<Rightarrow> rdm_uid \<Rightarrow> mem" where
  "uid_to_mem m n u = write_u32 (write_u16 m n (man_id u)) (n + 2) (dev_id u)"

definition uidcpy :: "mem \<Rightarrow> nat \<Rightarrow> mem \<Rightarrow> nat \<Rightarrow> mem" where
  "uidcpy destination d source s =
     write_u32 (write_u16 destination d (bswap16 (read_u16 source s)))
       (d + 2) (bswap32 (read_u32 source (s + 2)))"

definition uidmove :: "mem \<Rightarrow> nat \<Rightarrow> mem \<Rightarrow> nat \<Rightarrow> mem" where
  "uidmove destination d source s =
     (let temp = \<lparr>man_id = man_id (uid_of_mem source s), dev_id = dev_id (uid_of_mem source s)\<rparr>
      in uidcpy destination d (uid_to_mem (\<lambda>_. 0) 0 temp) 0)"

definition uid_is_eq :: "rdm_uid \<Rightarrow> rdm_uid \<Rightarrow> bool" where
  "uid_is_eq a b \<longleftrightarrow> man_id a = man_id b \<and> dev_id a = dev_id b"

definition uid_is_broadcast :: "rdm_uid \<Rightarrow> bool" where
  "uid_is_broadcast uid \<longleftrightarrow> dev_id uid = 0xffffffff"

definition uid_is_null :: "rdm_uid \<Rightarrow> bool" where
  "uid_is_null uid \<longleftrightarrow> man_id uid = 0 \<and> dev_id uid = 0"

definition uid_is_target :: "rdm_uid \<Rightarrow> rdm_uid \<Rightarrow> bool" where
  "uid_is_target uid alias \<longleftrightarrow>
     ((man_id alias = 0xffff \<or> man_id alias = man_id uid) \<and> dev_id alias = 0xffffffff)
     \<or> uid_is_eq uid alias"

section \<open>Discovery codec\<close>

text \<open>
  Modelled from the spec: \<open>RDM_PREAMBLE\<close> and \<open>RDM_DELIMITER\<close> are macros of
  \<open>rdm/types.h\<close>; the spec gives the preamble byte 0xFE and the delimiter 0xAA.
\<close>

definition RDM_PREAMBLE :: u8 where "RDM_PREAMBLE = 0xfe"
definition RDM_DELIMITER :: u8 where "RDM_DELIMITER = 0xaa"

definition uid_encode :: "mem \<Rightarrow> rdm_uid \<Rightarrow> nat \<Rightarrow> nat \<times> mem" where
  "uid_encode destination uid preamble_len0 =
     (let preamble_len = (if preamble_len0 > 7 then 7 else preamble_len0);
          m0 = fold (\<lambda>i m. m(i := RDM_PREAMBLE)) [0..<preamble_len] destination;
          m1 = m0(preamble_len := RDM_DELIMITER);
          d = preamble_len + 1;
          m2 = m1(d + 0 := byte16 (man_id uid) 1 OR 0xaa,
                  d + 1 := byte16 (man_id uid) 1 OR 0x55,
                  d + 2 := byte16 (man_id uid) 0 OR 0xaa,
                  d + 3 := byte16 (man_id uid) 0 OR 0x55,
                  d + 4 := byte32 (dev_id uid) 3 OR 0xaa,
                  d + 5 := byte32 (dev_id uid) 3 OR 0x55,
                  d + 6 := byte32 (dev_id uid) 2 OR 0xaa,
                  d + 7 := byte32 (dev_id uid) 2 OR 0x55,
                  d + 8 := byte32 (dev_id uid) 1 OR 0xaa,
                  d + 9 := byte32 (dev_id uid) 1 OR 0x55,
                  d + 10 := byte32 (dev_id uid) 0 OR 0xaa,
                  d + 11 := byte32 (dev_id uid) 0 OR 0x55);
          checksum = fold (\<lambda>i (c :: u16). c + ucast (m2 (d + i))) [0..<12] 0;
          m3 = m2(d + 12 := ucast (drop_bit 8 checksum OR 0xaa),
                  d + 13 := ucast (drop_bit 8 checksum OR 0x55),
                  d + 14 := ucast ((checksum AND 0xff) OR 0xaa),
                  d + 15 := ucast ((checksum AND 0xff) OR 0x55))
      in (preamble_len + 1 + 16, m3))"

function get_preamble_len_from :: "mem \<Rightarrow> nat \<Rightarrow> nat" where
  "get_preamble_len_from d preamble_len =
     (if preamble_len \<le> 7
      then (if d preamble_len = RDM_DELIMITER then preamble_len
            else get_preamble_len_from d (preamble_len + 1))
      else preamble_len)"
  by pat_completeness auto
termination
  by (relation "measure (\<lambda>(d, p). 8 - p)") auto

definition get_preamble_len :: "mem \<Rightarrow> nat" where
  "get_preamble_len data = get_preamble_len_from data 0"

text \<open>
  \<open>uid_decode\<close> returns the number of bytes consumed and the UID behind the \<open>uid\<close> pointer:
  on failure it returns 0 and leaves the UID as it was.
\<close>

definition uid_decode :: "rdm_uid \<Rightarrow> mem \<Rightarrow> nat \<Rightarrow> nat \<times> rdm_uid" where
  "uid_decode uid source sz =
     (if sz < 17 then (0, uid)
      else let preamble_len = get_preamble_len source in
        if preamble_len > 7 \<or> sz < preamble_len + 17 then (0, uid)
        else let d = preamble_len + 1;
                 buf = fold (\<lambda>i b. b(i := source (d + 2 * i) AND source (d + 2 * i + 1)))
                         [0..<6] (\<lambda>_. 0)
             in (preamble_len + 1 + 16, uid_of_mem (uidcpy (uid_to_mem (\<lambda>_. 0) 0 uid) 0 buf 0) 0))"

section \<open>Format strings\<close>

text \<open>
  A C string is the list of its characters before the terminating NUL (it contains no NUL
  itself). A pointer \<open>f\<close> into the string is the rest of the string from \<open>f\<close> on: \<open>*f\<close> is
  NUL exactly when the rest is empty. Moving \<open>f\<close> from the terminator one further leaves
  the string; what the C code reads there is not defined, and the model's result is \<open>None\<close>.
\<close>

definition NUL :: char where
  "NUL = CHR 0x00"

definition deref :: "string \<Rightarrow> char" where
  "deref f = (case f of [] \<Rightarrow> NUL | c # _ \<Rightarrow> c)"

definition isdigit :: "char \<Rightarrow> bool" where
  "isdigit c \<longleftrightarrow> c \<in> set ''0123456789''"

definition isxdigit :: "char \<Rightarrow> bool" where
  "isxdigit c \<longleftrightarrow> c \<in> set ''0123456789abcdefABCDEF''"

definition digit_val :: "char \<Rightarrow> nat" where
  "digit_val c =
     (if isdigit c then of_char c - 48
      else if c \<in> set ''abcdef'' then of_char c - 87
      else of_char c - 55)"

definition LONG_MAX :: int where
  "LONG_MAX = 2147483647"

text \<open>
  \<open>strtol(s, &end_ptr, base)\<close> for base 10 and 16, on the strings it is called with here:
  the first character is a digit of the base, a letter of the format language, \<open>$\<close> or
  NUL, so there is no white space, sign or \<open>0x\<close> prefix to skip. The result is the value of
  the longest run of digits, \<open>LONG_MAX\<close> when it does not fit a \<open>long\<close>, and \<open>end_ptr\<close>.
  \<open>atoi(s)\<close> is \<open>(int) strtol(s, NULL, 10)\<close>.
\<close>

definition is_digit_of :: "int \<Rightarrow> char \<Rightarrow> bool" where
  "is_digit_of base c = (if base = 16 then isxdigit c else isdigit c)"

definition strtol :: "string \<Rightarrow> int \<Rightarrow> int \<times> string" where
  "strtol s base =
     (let v = foldl (\<lambda>a c. a * base + int (digit_val c)) 0 (takeWhile (is_digit_of base) s)
      in (if v > LONG_MAX then LONG_MAX else v, dropWhile (is_digit_of base) s))"

definition atoi :: "string \<Rightarrow> int" where
  "atoi s = fst (strtol s 10)"

text \<open>
  One pass of the body of the loop of \<open>rdm_param_parse\<close>, up to the size check, with \<open>*f = c\<close>
  and \<open>cs\<close> the characters behind it. The result is \<open>Inl r\<close> when the body returns \<open>r\<close>, and
  \<open>Inr (field_size, f)\<close> with the new value of \<open>f\<close> otherwise, together with \<open>*is_singleton\<close>.
  \<open>return -1\<close> from a function that returns \<open>size_t\<close> is \<open>0xffffffff\<close>. The branches of
  the ASCII string and of the integer literal are definitions of their own.
\<close>

definition parse_ascii ::
  "char \<Rightarrow> string \<Rightarrow> nat \<Rightarrow> bool \<Rightarrow> (u32 + nat \<times> string) \<times> bool" where
  "parse_ascii c cs param_size is_single =
     (let str_has_fixed_len = isdigit (deref cs);
          field_size = (if str_has_fixed_len then fst (strtol cs 10) else 32);
          end_ptr = snd (strtol cs 10)
      in if \<not> str_has_fixed_len \<and> (deref cs \<noteq> NUL \<and> deref cs \<noteq> CHR ''$'')
         then (Inl (- 1), is_single)
         else if str_has_fixed_len \<and> field_size = 0 then (Inl 0, is_single)
         else if str_has_fixed_len \<and> field_size > 231 - int param_size
         then (Inl 0, is_single)
         else if str_has_fixed_len then (Inr (nat field_size, end_ptr), is_single)
         else (Inr (nat field_size, c # cs), True))"

definition parse_literal :: "string \<Rightarrow> bool \<Rightarrow> (u32 + nat \<times> string) \<times> bool" where
  "parse_literal cs is_single =
     (let num_chars = min 17 (length (takeWhile isxdigit cs)) in
      if num_chars > 16 then (Inl 0, is_single)
      else let field_size = num_chars div 2 + num_chars mod 2;
               f = drop num_chars cs
           in if deref f \<noteq> CHR ''h'' \<and> deref f \<noteq> CHR ''H'' then (Inl 0, is_single)
              else (Inr (field_size, f), is_single))"

definition parse_field ::
  "char \<Rightarrow> string \<Rightarrow> nat \<Rightarrow> bool \<Rightarrow> (u32 + nat \<times> string) \<times> bool" where
  "parse_field c cs param_size is_single =
     (if c = CHR ''b'' \<or> c = CHR ''B'' then (Inr (1, c # cs), is_single)
      else if c = CHR ''w'' \<or> c = CHR ''W'' then (Inr (2, c # cs), is_single)
      else if c = CHR ''d'' \<or> c = CHR ''D'' then (Inr (4, c # cs), is_single)
      else if c = CHR ''u'' \<or> c = CHR ''U'' then (Inr (6, c # cs), is_single)
      else if c = CHR ''v'' \<or> c = CHR ''V'' then
        (if deref cs \<noteq> NUL \<and> deref cs \<noteq> CHR ''$'' then (Inl 0, is_single)
         else (Inr (6, c # cs), True))
      else if c = CHR ''a'' \<or> c = CHR ''A'' then parse_ascii c cs param_size is_single
      else if c = CHR ''#'' then parse_literal cs is_single
      else if c = CHR ''$'' then
        (if deref cs \<noteq> NUL then (Inl 0, is_single) else (Inr (0, c # cs), True))
      else (Inl 0, is_single))"

lemma parse_ascii_length:
  "parse_ascii c cs param_size is_single = (Inr (field_size, f), sg) \<Longrightarrow>
   length f \<le> Suc (length cs)"
  unfolding parse_ascii_def Let_def strtol_def
  by (cases "isdigit (deref cs)")
     (auto split: if_splits intro: le_SucI length_dropWhile_le)

lemma parse_literal_length:
  "parse_literal cs is_single = (Inr (field_size, f), sg) \<Longrightarrow> length f \<le> Suc (length cs)"
  unfolding parse_literal_def Let_def
  by (auto split: if_splits)

lemma parse_field_length:
  "parse_field c cs param_size is_single = (Inr (field_size, f), sg) \<Longrightarrow>
   length f \<le> Suc (length cs)"
proof -
  assume r: "parse_field c cs param_size is_single = (Inr (field_size, f), sg)"
  consider (single) "f = c # cs"
    | (ascii) "parse_ascii c cs param_size is_single = (Inr (field_size, f), sg)"
    | (literal) "parse_literal cs is_single = (Inr (field_size, f), sg)"
    using r unfolding parse_field_def
    by (simp split: if_split_asm)
  then show ?thesis
  proof cases
    case single
    then show ?thesis by simp
  next
    case ascii
    then show ?thesis by (rule parse_ascii_length)
  next
    case literal
    then show ?thesis by (rule parse_literal_length)
  qed
qed

text \<open>
  The loop of \<open>rdm_param_parse\<close>: the size check behind the body, and \<open>++f\<close>.
\<close>

function parse_loop :: "string \<Rightarrow> nat \<Rightarrow> bool \<Rightarrow> (u32 \<times> bool) option" where
  "parse_loop [] param_size is_single = Some (of_nat param_size, is_single)"
| "parse_loop (c # cs) param_size is_single =
     (case parse_field c cs param_size is_single of
        (Inl r, sg) \<Rightarrow> Some (r, sg)
      | (Inr (field_size, f), sg) \<Rightarrow>
          if param_size + field_size > 231 then Some (0, sg)
          else (case f of
                  [] \<Rightarrow> None
                | _ # f' \<Rightarrow> parse_loop f' (param_size + field_size) sg))"
  by pat_completeness auto
termination
  by (relation "measure (\<lambda>(f, p, s). length f)") (auto dest: parse_field_length [OF sym])

definition rdm_param_parse :: "string \<Rightarrow> (u32 \<times> bool) option" where
  "rdm_param_parse format = parse_loop format 0 (format = [])"

section \<open>The format codec \<open>pd_emplace\<close>\<close>

text \<open>
  \<open>strnlen(source + n, max_len)\<close>: the number of bytes before the first zero byte, at most
  \<open>max_len\<close>.
\<close>

fun strnlen :: "mem \<Rightarrow> nat \<Rightarrow> nat \<Rightarrow> nat" where
  "strnlen m n 0 = 0"
| "strnlen m n (Suc max_len) = (if m n = 0 then 0 else Suc (strnlen m (Suc n) max_len))"

text \<open>Subtraction of \<open>size_t\<close> values wraps around.\<close>

definition size_sub :: "int \<Rightarrow> int \<Rightarrow> int" where
  "size_sub a b = (a - b) mod 2 ^ 32"

text \<open>
  What one pass of the body of the inner loop of \<open>pd_emplace\<close> leaves behind: the loop goes
  on with the new \<open>n\<close> and destination, or \<open>break\<close> ends it.
\<close>

datatype flow = Continue nat mem | Break nat mem

text \<open>
  The branch of the ASCII string. The terminator is written at \<open>destination + len\<close>, as in
  the source, whatever \<open>n\<close> is.
\<close>

definition emplace_ascii :: "bool \<Rightarrow> nat \<Rightarrow> mem \<Rightarrow> string \<Rightarrow> nat \<Rightarrow> mem \<Rightarrow> flow" where
  "emplace_ascii encode_nulls sz source cs n destination =
     (let len0 = atoi cs;
          len = (if len0 = 0
                 then (let str_size = size_sub (int sz) (if encode_nulls then 1 else 0);
                           max_len = (if size_sub str_size (int n) < 32
                                      then size_sub str_size (int n) else 32)
                       in strnlen source n (nat max_len))
                 else nat len0);
          d1 = memmove destination n source n len
      in if encode_nulls then Continue (n + 1 + len) (d1(len := 0)) else Continue (n + len) d1)"

text \<open>
  The branch of the integer literal, \<open>cs\<close> being the characters behind \<open>#\<close>. The literal
  is a \<open>uint64_t\<close>: more than 8 bytes of it do not exist, and the result is \<open>None\<close>.
\<close>

definition emplace_literal :: "string \<Rightarrow> nat \<Rightarrow> mem \<Rightarrow> flow option" where
  "emplace_literal cs n destination =
     (let literal = fst (strtol cs 16);
          end_ptr = snd (strtol cs 16);
          num_chars = length cs - length end_ptr;
          literal_len = num_chars div 2 + num_chars mod 2
      in if literal_len > 8 then None
         else Some (Continue (n + literal_len)
                (\<lambda>i. if n \<le> i \<and> i < n + literal_len
                     then word_of_int (literal div 256 ^ (literal_len - 1 - (i - n)))
                     else destination i)))"

text \<open>
  The body of the inner loop with \<open>*f = c\<close>: what it does to \<open>n\<close> and to the destination.
  A \<open>NULL\<close> source (\<open>None\<close>) cannot be read: the result is \<open>None\<close>.
\<close>

definition emplace_field ::
  "bool \<Rightarrow> nat \<Rightarrow> mem option \<Rightarrow> char \<Rightarrow> string \<Rightarrow> nat \<Rightarrow> mem \<Rightarrow> flow option" where
  "emplace_field encode_nulls sz source c cs n destination =
     (if c = CHR ''b'' \<or> c = CHR ''B'' then
        map_option (\<lambda>src. Continue (n + 1) (destination(n := src n))) source
      else if c = CHR ''w'' \<or> c = CHR ''W'' then
        map_option (\<lambda>src. Continue (n + 2)
          (write_u16 destination n (bswap16 (read_u16 src n)))) source
      else if c = CHR ''d'' \<or> c = CHR ''D'' then
        map_option (\<lambda>src. Continue (n + 4)
          (write_u32 destination n (bswap32 (read_u32 src n)))) source
      else if c = CHR ''u'' \<or> c = CHR ''U'' \<or> c = CHR ''v'' \<or> c = CHR ''V'' then
        map_option (\<lambda>src.
          if (c = CHR ''v'' \<or> c = CHR ''V'') \<and> \<not> encode_nulls \<and> uid_is_null (uid_of_mem src n)
          then Break n destination
          else Continue (n + 6) (uidmove destination n src n)) source
      else if c = CHR ''a'' \<or> c = CHR ''A'' then
        map_option (\<lambda>src. emplace_ascii encode_nulls sz src cs n destination) source
      else if c = CHR ''#'' then emplace_literal cs n destination
      else Some (Continue n destination))"

text \<open>
  The body of the inner loop with \<open>*f = c\<close>: what it does to \<open>f\<close>. Only the branch of the
  integer literal moves \<open>f\<close>, to \<open>end_ptr\<close>.
\<close>

definition emplace_f :: "char \<Rightarrow> string \<Rightarrow> string" where
  "emplace_f c cs = (if c = CHR ''#'' then snd (strtol cs 16) else c # cs)"

lemma emplace_f_length: "length (emplace_f c cs) \<le> Suc (length cs)"
  by (simp add: emplace_f_def strtol_def Let_def le_SucI length_dropWhile_le)

lemma emplace_f_tail: "emplace_f c cs = x # f' \<Longrightarrow> length f' < Suc (length cs)"
  using emplace_f_length [of c cs] by simp

text \<open>The inner loop: the body, then \<open>++f\<close>.\<close>

function emplace_fields ::
  "bool \<Rightarrow> nat \<Rightarrow> mem option \<Rightarrow> string \<Rightarrow> nat \<Rightarrow> mem \<Rightarrow> (nat \<times> mem) option" where
  "emplace_fields encode_nulls sz source [] n destination = Some (n, destination)"
| "emplace_fields encode_nulls sz source (c # cs) n destination =
     (case emplace_field encode_nulls sz source c cs n destination of
        None \<Rightarrow> None
      | Some (Break n' d') \<Rightarrow> Some (n', d')
      | Some (Continue n' d') \<Rightarrow>
          (case emplace_f c cs of
             [] \<Rightarrow> None
           | _ # f' \<Rightarrow> emplace_fields encode_nulls sz source f' n' d'))"
  by pat_completeness auto
termination
  by (relation "measure (\<lambda>(e, z, s, f, n, d). length f)")
     (auto dest: emplace_f_tail emplace_f_tail [OF sym])

text \<open>The outer loop, \<open>num_params_to_copy\<close> times over the format.\<close>

fun emplace_params ::
  "nat \<Rightarrow> bool \<Rightarrow> nat \<Rightarrow> mem option \<Rightarrow> string \<Rightarrow> nat \<Rightarrow> mem \<Rightarrow> (nat \<times> mem) option" where
  "emplace_params 0 encode_nulls sz source format n destination = Some (n, destination)"
| "emplace_params (Suc k) encode_nulls sz source format n destination =
     (case emplace_fields encode_nulls sz source format n destination of
        None \<Rightarrow> None
      | Some (n', d') \<Rightarrow> emplace_params k encode_nulls sz source format n' d')"

text \<open>
  \<open>pd_emplace\<close> returns \<open>n\<close> and the destination. The result of \<open>rdm_param_parse\<close> is
  stored in an \<open>int\<close>.
\<close>

definition pd_emplace ::
  "mem \<Rightarrow> nat \<Rightarrow> string \<Rightarrow> mem option \<Rightarrow> nat \<Rightarrow> bool \<Rightarrow> (nat \<times> mem) option" where
  "pd_emplace destination dest_size format source src_size0 encode_nulls =
     (let src_size = (if src_size0 > 231 then 231 else src_size0) in
      case rdm_param_parse format of
        None \<Rightarrow> None
      | Some (r, param_is_singleton) \<Rightarrow>
          (let param_size = sint r in
           if param_size < 1 then Some (0, destination)
           else let sz = (if dest_size < src_size then dest_size else src_size);
                    num_params_to_copy =
                      (if param_is_singleton then 1 else sz div nat param_size)
                in emplace_params num_params_to_copy encode_nulls sz source format 0
                     destination))"

section \<open>RDM frames in the port buffer\<close>

text \<open>
  Modelled from the spec: the start codes and the command classes are macros and enum
  values of \<open>rdm/types.h\<close>. The spec gives \<open>SC = 0xCC\<close>, \<open>SUB_SC = 0x01\<close>,
  \<open>DISC_COMMAND = 0x10\<close>, \<open>DISC_COMMAND_RESPONSE = 0x11\<close>, \<open>GET_COMMAND = 0x20\<close>,
  \<open>SET_COMMAND = 0x30\<close> and the null UID \<open>(0, 0)\<close>.
\<close>

definition RDM_SC :: u8 where "RDM_SC = 0xcc"
definition RDM_SUB_SC :: u8 where "RDM_SUB_SC = 0x01"
definition RDM_CC_DISC_COMMAND :: u8 where "RDM_CC_DISC_COMMAND = 0x10"
definition RDM_CC_DISC_COMMAND_RESPONSE :: u8 where "RDM_CC_DISC_COMMAND_RESPONSE = 0x11"
definition RDM_CC_GET_COMMAND :: u8 where "RDM_CC_GET_COMMAND = 0x20"
definition RDM_CC_SET_COMMAND :: u8 where "RDM_CC_SET_COMMAND = 0x30"
definition RDM_UID_NULL :: rdm_uid where "RDM_UID_NULL = \<lparr>man_id = 0, dev_id = 0\<rparr>"

text \<open>
  Modelled from the spec: \<open>rdm_header_t\<close> is declared in \<open>rdm/types.h\<close>. The spec gives
  the header as the 24-byte envelope of the message: the start code, the sub-start code and
  the message length (three bytes the struct does not name), then \<open>dest_uid\<close>, \<open>src_uid\<close>,
  \<open>tn\<close>, \<open>port_id\<close> (which shares its byte with \<open>response_type\<close>), \<open>message_count\<close>,
  \<open>sub_device\<close>, \<open>cc\<close>, \<open>pid\<close> and \<open>pdl\<close>. A header is the memory of the struct; the fields
  are read and written in place, integers in the byte order of the target.
\<close>

definition sizeof_header :: nat where "sizeof_header = 24"

definition hdr_dest_uid :: "mem \<Rightarrow> rdm_uid" where "hdr_dest_uid h = uid_of_mem h 3"
definition hdr_src_uid :: "mem \<Rightarrow> rdm_uid" where "hdr_src_uid h = uid_of_mem h 9"
definition hdr_tn :: "mem \<Rightarrow> u8" where "hdr_tn h = h 15"
definition hdr_port_id :: "mem \<Rightarrow> u8" where "hdr_port_id h = h 16"
definition hdr_response_type :: "mem \<Rightarrow> u8" where "hdr_response_type h = h 16"
definition hdr_message_count :: "mem \<Rightarrow> u8" where "hdr_message_count h = h 17"
definition hdr_sub_device :: "mem \<Rightarrow> u16" where "hdr_sub_device h = read_u16 h 18"
definition hdr_cc :: "mem \<Rightarrow> u8" where "hdr_cc h = h 20"
definition hdr_pid :: "mem \<Rightarrow> u16" where "hdr_pid h = read_u16 h 21"
definition hdr_pdl :: "mem \<Rightarrow> u8" where "hdr_pdl h = h 23"

definition set_dest_uid :: "rdm_uid \<Rightarrow> mem \<Rightarrow> mem" where "set_dest_uid u h = uid_to_mem h 3 u"
definition set_src_uid :: "rdm_uid \<Rightarrow> mem \<Rightarrow> mem" where "set_src_uid u h = uid_to_mem h 9 u"
definition set_tn :: "u8 \<Rightarrow> mem \<Rightarrow> mem" where "set_tn v h = h(15 := v)"
definition set_port_id :: "u8 \<Rightarrow> mem \<Rightarrow> mem" where "set_port_id v h = h(16 := v)"
definition set_response_type :: "u8 \<Rightarrow> mem \<Rightarrow> mem" where "set_response_type v h = h(16 := v)"
definition set_message_count :: "u8 \<Rightarrow> mem \<Rightarrow> mem" where "set_message_count v h = h(17 := v)"
definition set_sub_device :: "u16 \<Rightarrow> mem \<Rightarrow> mem" where "set_sub_device v h = write_u16 h 18 v"
definition set_cc :: "u8 \<Rightarrow> mem \<Rightarrow> mem" where "set_cc v h = h(20 := v)"
definition set_pid :: "u16 \<Rightarrow> mem \<Rightarrow> mem" where "set_pid v h = write_u16 h 21 v"
definition set_pdl :: "u8 \<Rightarrow> mem \<Rightarrow> mem" where "set_pdl v h = h(23 := v)"

text \<open>The format string of the header in \<open>rdm_read\<close> and \<open>rdm_write\<close>.\<close>

definition header_format :: string where
  "header_format = ''#cc01#18huubbbwbw''"

text \<open>
  The part of \<open>dmx_driver_t\<close> the functions use: \<open>data.buffer\<close>, \<open>data.tx_size\<close>,
  \<open>is_sending\<close>, the RTS line of \<open>uart\<close> and \<open>rdm.tn\<close>. \<open>dmx_driver[]\<close> holds \<open>NULL\<close>
  (\<open>None\<close>) for a port without a driver. The calls into the bus layer are logged.
\<close>

record dmx_driver =
  buffer :: mem
  tx_size :: nat
  is_sending :: bool
  rts :: nat
  rdm_tn :: u8

datatype hal_call = Send nat nat | Receive nat | Wait_sent nat | Read_slots nat nat

record bus =
  dmx_driver :: "nat \<Rightarrow> dmx_driver option"
  hal_log :: "hal_call list"

text \<open>
  \<open>rdm_write\<close> returns \<open>written\<close> and the new state. \<open>num_max\<close> is \<open>DMX_NUM_MAX\<close>, a macro
  of the target.
\<close>

definition rdm_write ::
  "nat \<Rightarrow> nat \<Rightarrow> mem option \<Rightarrow> u8 \<Rightarrow> mem option \<Rightarrow> bus \<Rightarrow> (nat \<times> bus) option" where
  "rdm_write num_max dmx_num header pdl pd s =
     (if \<not> dmx_num < num_max then Some (0, s)
      else if \<not> (pdl \<le> 231 \<and> \<not> (pd = None \<and> pdl > 0)) then Some (0, s)
      else if \<not> (header \<noteq> None \<or> (pd \<noteq> None \<and> pdl > 0)) then Some (0, s)
      else case dmx_driver s dmx_num of
        None \<Rightarrow> Some (0, s)
      | Some driver \<Rightarrow>
          if is_sending driver then Some (0, s)
          else
            (let rts1 = (if rts driver = 1 then 0 else rts driver) in
             case pd_emplace (buffer driver) 513 header_format header sizeof_header False of
               None \<Rightarrow> None
             | Some (_, b1) \<Rightarrow>
                 (let b2 = (case pd of None \<Rightarrow> b1 | Some p \<Rightarrow> memmove b1 25 p 0 (unat pdl));
                      b3 = b2(2 := b2 2 + pdl);
                      b4 = b3(24 := pdl);
                      checksum = fold (\<lambda>i (c :: u16). c + ucast (b4 i)) [2..<unat (b4 2)]
                                   (ucast RDM_SC + ucast RDM_SUB_SC);
                      b5 = write_u16 b4 (unat (b4 2)) (bswap16 checksum);
                      written = unat (b5 2) + 2
                  in Some (written,
                       s\<lparr>dmx_driver := (dmx_driver s)(dmx_num \<mapsto>
                           driver\<lparr>buffer := b5, tx_size := written, rts := rts1\<rparr>)\<rparr>))))"

text \<open>
  \<open>rdm_read\<close> returns \<open>read\<close> and what is behind the pointers \<open>header\<close>, \<open>pdl\<close> and \<open>pd\<close>
  afterwards.
\<close>

definition rdm_read ::
  "nat \<Rightarrow> nat \<Rightarrow> mem option \<Rightarrow> u8 option \<Rightarrow> mem option \<Rightarrow> bus \<Rightarrow>
     (nat \<times> mem option \<times> u8 option \<times> mem option) option" where
  "rdm_read num_max dmx_num header pdl pd s =
     (if \<not> dmx_num < num_max then Some (0, header, pdl, pd)
      else case dmx_driver s dmx_num of
        None \<Rightarrow> Some (0, header, pdl, pd)
      | Some driver \<Rightarrow>
          (let b = buffer driver in
           if read_u16 b 0 \<noteq> (ucast RDM_SC OR push_bit 8 (ucast RDM_SUB_SC))
           then Some (0, header, pdl, pd)
           else
             (let checksum = fold (\<lambda>i (c :: u16). c + ucast (b i)) [0..<unat (b 2)] 0 in
              if checksum \<noteq> bswap16 (read_u16 b (unat (b 2))) then Some (0, header, pdl, pd)
              else
                (case (case header of
                         None \<Rightarrow> Some None
                       | Some h \<Rightarrow>
                           map_option (\<lambda>r. Some (snd r))
                             (pd_emplace h sizeof_header header_format (Some b) 513 True)) of
                   None \<Rightarrow> None
                 | Some header' \<Rightarrow>
                     (let cpy_size = (case pdl of
                                        None \<Rightarrow> b 24
                                      | Some l \<Rightarrow> if l > b 24 then b 24 else l);
                          pd' = map_option (\<lambda>p. memmove p 0 b 25 (unat cpy_size)) pd;
                          pdl' = map_option (\<lambda>_. cpy_size) pdl
                      in Some (unat (b 2) + 2, header', pdl', pd'))))))"

section \<open>The transaction engine \<open>rdm_request\<close>\<close>

text \<open>
  The macros and enum values of \<open>rdm/types.h\<close> and of the target that the spec gives no
  value for are parameters: \<open>DMX_NUM_MAX\<close>, the PID of \<open>DISC_UNIQUE_BRANCH\<close>, the sub-devices
  \<open>ALL\<close> and \<open>ROOT\<close>, the values of \<open>rdm_response_type_t\<close>, and \<open>pdMS_TO_TICKS\<close>.
\<close>

record rdm_defs =
  DMX_NUM_MAX :: nat
  RDM_PID_DISC_UNIQUE_BRANCH :: u16
  RDM_SUB_DEVICE_ALL :: u16
  RDM_SUB_DEVICE_ROOT :: u16
  RDM_RESPONSE_TYPE_ACK :: int
  RDM_RESPONSE_TYPE_ACK_TIMER :: int
  RDM_RESPONSE_TYPE_NACK_REASON :: int
  RDM_RESPONSE_TYPE_ACK_OVERFLOW :: int
  RDM_RESPONSE_TYPE_NONE :: int
  RDM_RESPONSE_TYPE_INVALID :: int
  pdMS_TO_TICKS :: "int \<Rightarrow> int"

record rdm_ack =
  ack_err :: int
  ack_type :: int
  ack_num :: int

text \<open>
  Modelled from the spec: \<open>rdm_driver_get_uid\<close>, \<open>dmx_send\<close>, \<open>dmx_receive\<close> and \<open>dmx_read\<close>
  are not under \<open>src/\<close>. The spec: \<open>send\<close> transmits the first \<open>n\<close> bytes of the buffer;
  \<open>receive\<close> blocks for a complete inbound frame or a timeout, and the packet carries \<open>err\<close>
  and a size; \<open>read_slots\<close> is a raw copy of inbound bytes. What the bus layer delivers is a
  parameter: the UID of the port, what \<open>dmx_send\<close> makes of the transaction number of the
  port, the \<open>err\<close> and the size of the received packet, and the buffer after the reception.

  \<open>dmx_wait_sent\<close> (\<open>src/src/esp_dmx.c\<close>) waits for the flag \<open>DMX_SENT\<close> of the event group of
  the driver and returns \<open>ESP_OK\<close> or \<open>ESP_ERR_TIMEOUT\<close>, which \<open>rdm_request\<close> drops: it
  changes nothing of the state here, and the call is logged.
\<close>

record bus_env =
  own_uid :: rdm_uid
  send_tn :: "u8 \<Rightarrow> u8"
  rx_err :: int
  rx_size :: nat
  rx_data :: mem

definition rdm_driver_get_uid :: "bus_env \<Rightarrow> nat \<Rightarrow> rdm_uid" where
  "rdm_driver_get_uid E dmx_num = own_uid E"

definition log_call :: "hal_call \<Rightarrow> bus \<Rightarrow> bus" where
  "log_call c s = s\<lparr>hal_log := hal_log s @ [c]\<rparr>"

definition dmx_send :: "bus_env \<Rightarrow> nat \<Rightarrow> nat \<Rightarrow> bus \<Rightarrow> bus" where
  "dmx_send E dmx_num n s =
     log_call (Send dmx_num n)
       (s\<lparr>dmx_driver := (dmx_driver s)(dmx_num :=
            map_option (\<lambda>d. d\<lparr>rdm_tn := send_tn E (rdm_tn d)\<rparr>) (dmx_driver s dmx_num))\<rparr>)"

definition dmx_wait_sent :: "nat \<Rightarrow> bus \<Rightarrow> bus" where
  "dmx_wait_sent dmx_num s = log_call (Wait_sent dmx_num) s"

definition dmx_receive :: "bus_env \<Rightarrow> nat \<Rightarrow> bus \<Rightarrow> (int \<times> nat) \<times> bus" where
  "dmx_receive E dmx_num s =
     ((rx_err E, rx_size E),
      log_call (Receive dmx_num)
        (s\<lparr>dmx_driver := (dmx_driver s)(dmx_num :=
             map_option (\<lambda>d. d\<lparr>buffer := rx_data E\<rparr>) (dmx_driver s dmx_num))\<rparr>))"

definition dmx_read :: "nat \<Rightarrow> mem \<Rightarrow> nat \<Rightarrow> bus \<Rightarrow> mem \<times> bus" where
  "dmx_read dmx_num destination n s =
     ((case dmx_driver s dmx_num of
         None \<Rightarrow> destination
       | Some d \<Rightarrow> memmove destination 0 (buffer d) 0 n),
      log_call (Read_slots dmx_num n) s)"

definition set_ack :: "int \<Rightarrow> int \<Rightarrow> rdm_ack option \<Rightarrow> rdm_ack option" where
  "set_ack t n ack = map_option (\<lambda>a. a\<lparr>ack_type := t, ack_num := n\<rparr>) ack"

text \<open>
  The checks at the head of \<open>rdm_request\<close> that read the header (\<open>DMX_CHECK\<close> returns 0 when
  its condition fails).
\<close>

definition request_header_ok :: "rdm_defs \<Rightarrow> mem \<Rightarrow> bool" where
  "request_header_ok K h \<longleftrightarrow>
     \<not> uid_is_null (hdr_dest_uid h) \<and>
     \<not> uid_is_broadcast (hdr_src_uid h) \<and>
     (hdr_cc h = RDM_CC_DISC_COMMAND \<or> hdr_cc h = RDM_CC_GET_COMMAND
        \<or> hdr_cc h = RDM_CC_SET_COMMAND) \<and>
     (hdr_sub_device h < 513
        \<or> (hdr_sub_device h = RDM_SUB_DEVICE_ALL K \<and> hdr_cc h \<noteq> RDM_CC_GET_COMMAND))"

definition response_expected :: "rdm_defs \<Rightarrow> mem \<Rightarrow> bool" where
  "response_expected K h \<longleftrightarrow>
     \<not> uid_is_broadcast (hdr_dest_uid h)
     \<or> (hdr_pid h = RDM_PID_DISC_UNIQUE_BRANCH K \<and> hdr_cc h = RDM_CC_DISC_COMMAND)"

text \<open>
  The part of \<open>rdm_request\<close> that handles the response to a request that is not a
  \<open>DISC_UNIQUE_BRANCH\<close>, \<open>sz\<close> being the size \<open>dmx_receive\<close> returned. Reading \<open>*pd_out\<close>
  through a \<open>NULL\<close> pointer gives \<open>None\<close>.
\<close>

definition handle_response ::
  "rdm_defs \<Rightarrow> nat \<Rightarrow> nat \<Rightarrow> mem \<Rightarrow> u8 option \<Rightarrow> mem option \<Rightarrow> rdm_ack option \<Rightarrow> bus \<Rightarrow>
     (nat \<times> mem option \<times> u8 option \<times> mem option \<times> rdm_ack option \<times> bus) option" where
  "handle_response K dmx_num sz req pdl_out pd_out ack s =
     (case rdm_read (DMX_NUM_MAX K) dmx_num (Some req) pdl_out pd_out s of
        None \<Rightarrow> None
      | Some (rd, header', pdl_out', pd_out') \<Rightarrow>
          (case header' of
             None \<Rightarrow> None
           | Some h \<Rightarrow>
               (let rt = uint (hdr_response_type h);
                    response_type =
                      (if rd = 0 then RDM_RESPONSE_TYPE_INVALID K
                       else if rt \<noteq> RDM_RESPONSE_TYPE_ACK K
                               \<and> rt \<noteq> RDM_RESPONSE_TYPE_ACK_TIMER K
                               \<and> rt \<noteq> RDM_RESPONSE_TYPE_NACK_REASON K
                               \<and> rt \<noteq> RDM_RESPONSE_TYPE_ACK_OVERFLOW K
                            then RDM_RESPONSE_TYPE_INVALID K
                       else if uint (hdr_cc req) \<noteq> uint (hdr_cc h) - 1
                               \<or> hdr_pid req \<noteq> hdr_pid h
                               \<or> hdr_tn req \<noteq> hdr_tn h
                               \<or> \<not> uid_is_target (hdr_src_uid h) (hdr_dest_uid req)
                               \<or> \<not> uid_is_eq (hdr_dest_uid h) (hdr_src_uid req)
                            then RDM_RESPONSE_TYPE_INVALID K
                       else rt);
                    decoded =
                      (if response_type = RDM_RESPONSE_TYPE_ACK K then Some (int sz)
                       else if response_type = RDM_RESPONSE_TYPE_ACK_TIMER K then
                         map_option (\<lambda>p. pdMS_TO_TICKS K (uint (bswap16 (read_u16 p 0)) * 10))
                           pd_out'
                       else if response_type = RDM_RESPONSE_TYPE_NACK_REASON K then
                         map_option (\<lambda>p. uint (bswap16 (read_u16 p 0))) pd_out'
                       else if response_type = RDM_RESPONSE_TYPE_ACK_OVERFLOW K then Some 0
                       else Some 0)
                in map_option
                     (\<lambda>d. (sz, Some h, pdl_out', pd_out', set_ack response_type d ack, s))
                     decoded)))"

text \<open>
  The part of \<open>rdm_request\<close> that handles the response to a \<open>DISC_UNIQUE_BRANCH\<close>. The
  locals \<open>euid\<close> and \<open>uid\<close> are not initialised in the source and start as zero here:
  \<open>uid_decode\<close> reads \<open>euid\<close> only below \<open>size\<close>, where \<open>dmx_read\<close> has written it, and
  \<open>uid\<close> is read only after \<open>uid_decode\<close> has written it.
\<close>

definition handle_discovery ::
  "rdm_defs \<Rightarrow> nat \<Rightarrow> nat \<Rightarrow> mem \<Rightarrow> rdm_ack option \<Rightarrow> bus \<Rightarrow>
     nat \<times> mem \<times> rdm_ack option \<times> bus" where
  "handle_discovery K dmx_num sz0 header ack s =
     (let sz = (if sz0 > 24 then 24 else sz0);
          (euid, s1) = dmx_read dmx_num (\<lambda>_. 0) sz s;
          (decode_size, uid) = uid_decode RDM_UID_NULL euid sz
      in if decode_size = 0
         then (sz, header, set_ack (RDM_RESPONSE_TYPE_INVALID K) 0 ack, s1)
         else (decode_size,
               set_pid (RDM_PID_DISC_UNIQUE_BRANCH K)
                (set_cc RDM_CC_DISC_COMMAND_RESPONSE
                  (set_sub_device (RDM_SUB_DEVICE_ROOT K)
                    (set_message_count 0
                      (set_response_type (word_of_int (RDM_RESPONSE_TYPE_ACK K))
                        (set_tn 0
                          (set_dest_uid RDM_UID_NULL
                            (set_src_uid uid header))))))),
               set_ack (RDM_RESPONSE_TYPE_ACK K) 0 ack, s1))"

text \<open>
  The header as \<open>rdm_request\<close> hands it to \<open>rdm_write\<close>: the optional components set to
  allowed values, \<open>tn\<close> taken from the driver, \<open>message_count\<close> zero.
\<close>

definition request_header :: "bus_env \<Rightarrow> nat \<Rightarrow> dmx_driver \<Rightarrow> mem \<Rightarrow> mem" where
  "request_header E dmx_num driver h0 =
     (let h1 = (if hdr_port_id h0 = 0 then set_port_id (of_nat (dmx_num + 1)) h0 else h0);
          h2 = (if uid_is_null (hdr_src_uid h1)
                then set_src_uid (rdm_driver_get_uid E dmx_num) h1 else h1)
      in set_message_count 0 (set_tn (rdm_tn driver) h2))"

text \<open>
  \<open>rdm_request\<close> returns the size and what is behind \<open>header\<close>, \<open>pdl_out\<close>, \<open>pd_out\<close> and
  \<open>ack\<close> afterwards, with the new state.
\<close>

definition rdm_request ::
  "rdm_defs \<Rightarrow> bus_env \<Rightarrow> nat \<Rightarrow> mem option \<Rightarrow> u8 \<Rightarrow> mem option \<Rightarrow> u8 option \<Rightarrow>
     mem option \<Rightarrow> rdm_ack option \<Rightarrow> bus \<Rightarrow>
     (nat \<times> mem option \<times> u8 option \<times> mem option \<times> rdm_ack option \<times> bus) option" where
  "rdm_request K E dmx_num header pdl_in pd_in pdl_out pd_out ack s =
     (let fail = Some (0, header, pdl_out, pd_out, ack, s) in
      if \<not> dmx_num < DMX_NUM_MAX K then fail
      else case header of
        None \<Rightarrow> fail
      | Some h0 \<Rightarrow>
          if \<not> (pd_in \<noteq> None \<or> pdl_in = 0) then fail
          else if \<not> (pd_out \<noteq> None \<or> (pdl_out = None \<or> pdl_out = Some 0)) then fail
          else if \<not> request_header_ok K h0 then fail
          else case dmx_driver s dmx_num of
            None \<Rightarrow> fail
          | Some driver \<Rightarrow>
              (let h3 = request_header E dmx_num driver h0
               in case rdm_write (DMX_NUM_MAX K) dmx_num (Some h3) pdl_in pd_in s of
                    None \<Rightarrow> None
                  | Some (written, s1) \<Rightarrow>
                      (let s2 = dmx_send E dmx_num written s1 in
                       if response_expected K h3 then
                         (let ((err, sz), s3) = dmx_receive E dmx_num s2;
                              ack1 = map_option (\<lambda>a. a\<lparr>ack_err := err\<rparr>) ack
                          in if err \<noteq> 0
                             then Some (sz, Some h3, pdl_out, pd_out,
                                    set_ack (RDM_RESPONSE_TYPE_INVALID K) 0 ack1, s3)
                             else if hdr_pid h3 \<noteq> RDM_PID_DISC_UNIQUE_BRANCH K
                             then handle_response K dmx_num sz h3 pdl_out pd_out ack1 s3
                             else (case handle_discovery K dmx_num sz h3 ack1 s3 of
                                     (sz', h4, ack2, s4) \<Rightarrow>
                                       Some (sz', Some h4, pdl_out, pd_out, ack2, s4)))
                       else Some (written, Some h3, pdl_out, pd_out,
                              set_ack (RDM_RESPONSE_TYPE_NONE K) 0 ack,
                              dmx_wait_sent dmx_num s2))))"

section \<open>Format strings of fixed length\<close>

text \<open>
  The format strings of the grammar of the spec without ASCII fields: fields \<open>b\<close>, \<open>w\<close>,
  \<open>d\<close> and \<open>u\<close> in either case and integer literals of at most 16 hexadecimal digits with
  their terminator, closed by nothing, by the anchor \<open>$\<close>, or by an optional UID with or
  without the anchor. The size of a literal is half its number of digits, rounded up.
\<close>

datatype token = Field char | Literal string char

fun token_ok :: "token \<Rightarrow> bool" where
  "token_ok (Field c) \<longleftrightarrow> c \<in> set ''bBwWdDuU''"
| "token_ok (Literal ds t) \<longleftrightarrow>
     list_all isxdigit ds \<and> length ds \<le> 16 \<and> (t = CHR ''h'' \<or> t = CHR ''H'')"

fun token_str :: "token \<Rightarrow> string" where
  "token_str (Field c) = [c]"
| "token_str (Literal ds t) = CHR ''#'' # ds @ [t]"

fun token_size :: "token \<Rightarrow> nat" where
  "token_size (Field c) =
     (if c \<in> set ''bB'' then 1 else if c \<in> set ''wW'' then 2
      else if c \<in> set ''dD'' then 4 else 6)"
| "token_size (Literal ds t) = (length ds + 1) div 2"

datatype ending = No_end | Anchor | Opt_uid char | Opt_uid_anchor char

fun ending_ok :: "ending \<Rightarrow> bool" where
  "ending_ok (Opt_uid c) \<longleftrightarrow> c = CHR ''v'' \<or> c = CHR ''V''"
| "ending_ok (Opt_uid_anchor c) \<longleftrightarrow> c = CHR ''v'' \<or> c = CHR ''V''"
| "ending_ok _ \<longleftrightarrow> True"

fun ending_str :: "ending \<Rightarrow> string" where
  "ending_str No_end = []"
| "ending_str Anchor = ''$''"
| "ending_str (Opt_uid c) = [c]"
| "ending_str (Opt_uid_anchor c) = [c, CHR ''$'']"

fun ending_size :: "ending \<Rightarrow> nat" where
  "ending_size No_end = 0"
| "ending_size Anchor = 0"
| "ending_size (Opt_uid c) = 6"
| "ending_size (Opt_uid_anchor c) = 6"

fun ending_single :: "ending \<Rightarrow> bool" where
  "ending_single No_end \<longleftrightarrow> False"
| "ending_single _ \<longleftrightarrow> True"

fun ending_optional :: "ending \<Rightarrow> bool" where
  "ending_optional (Opt_uid c) \<longleftrightarrow> True"
| "ending_optional (Opt_uid_anchor c) \<longleftrightarrow> True"
| "ending_optional _ \<longleftrightarrow> False"

definition tokens_str :: "token list \<Rightarrow> string" where
  "tokens_str ts = concat (map token_str ts)"

definition tokens_size :: "token list \<Rightarrow> nat" where
  "tokens_size ts = sum_list (map token_size ts)"

definition format_of :: "token list \<Rightarrow> ending \<Rightarrow> string" where
  "format_of ts e = tokens_str ts @ ending_str e"

definition format_size :: "token list \<Rightarrow> ending \<Rightarrow> nat" where
  "format_size ts e = tokens_size ts + ending_size e"

text \<open>The header format with the terminator of its first literal in place.\<close>

definition header_tokens :: "token list" where
  "header_tokens =
     [Literal ''cc01'' (CHR ''h''), Literal ''18'' (CHR ''h''), Field (CHR ''u''),
      Field (CHR ''u''), Field (CHR ''b''), Field (CHR ''b''), Field (CHR ''b''),
      Field (CHR ''w''), Field (CHR ''b''), Field (CHR ''w'')]"

section \<open>Example inputs\<close>

text \<open>Memory that holds the given bytes, and zero behind them.\<close>

definition mem_of_list :: "u8 list \<Rightarrow> mem" where
  "mem_of_list xs = (\<lambda>i. if i < length xs then xs ! i else 0)"

text \<open>The first \<open>n\<close> bytes of the buffer of a port.\<close>

definition port_buffer :: "bus \<Rightarrow> nat \<Rightarrow> nat \<Rightarrow> u8 list" where
  "port_buffer s dmx_num n =
     (case dmx_driver s dmx_num of None \<Rightarrow> [] | Some d \<Rightarrow> map (buffer d) [0..<n])"

definition port_tn :: "bus \<Rightarrow> nat \<Rightarrow> u8 option" where
  "port_tn s dmx_num = map_option rdm_tn (dmx_driver s dmx_num)"

text \<open>
  A port with an installed driver whose buffer is all zero, that is not sending and whose
  transaction number is 7.
\<close>

definition idle_driver :: dmx_driver where
  "idle_driver =
     \<lparr>buffer = mem_of_list [], tx_size = 0, is_sending = False, rts = 1, rdm_tn = 7\<rparr>"

definition idle_bus :: bus where
  "idle_bus = \<lparr>dmx_driver = (\<lambda>_. None)(0 \<mapsto> idle_driver), hal_log = []\<rparr>"

text \<open>
  The header of the scenario of the spec, a GET request of PID 0x0060 from \<open>0003:00000004\<close>
  to \<open>0001:00000002\<close>, and a broadcast SET request.
\<close>

definition get_request :: mem where
  "get_request =
     set_dest_uid \<lparr>man_id = 0x0001, dev_id = 0x00000002\<rparr>
      (set_src_uid \<lparr>man_id = 0x0003, dev_id = 0x00000004\<rparr>
        (set_tn 5 (set_port_id 1 (set_message_count 0 (set_sub_device 0
          (set_cc 0x20 (set_pid 0x0060 (set_pdl 0 (mem_of_list [])))))))))"

definition broadcast_request :: mem where
  "broadcast_request =
     set_dest_uid \<lparr>man_id = 0xffff, dev_id = 0xffffffff\<rparr>
      (set_src_uid \<lparr>man_id = 0x0003, dev_id = 0x00000004\<rparr>
        (set_tn 5 (set_port_id 1 (set_message_count 0 (set_sub_device 0
          (set_cc 0x30 (set_pid 0x00f0 (set_pdl 0 (mem_of_list [])))))))))"

text \<open>
  Values for the parameters: three ports, the PID 0x0001 of \<open>DISC_UNIQUE_BRANCH\<close>, and
  response types with \<open>NACK_REASON = 0x03\<close>, as the spec has it, and the others distinct.
\<close>

definition example_defs :: rdm_defs where
  "example_defs =
     \<lparr>DMX_NUM_MAX = 3, RDM_PID_DISC_UNIQUE_BRANCH = 0x0001, RDM_SUB_DEVICE_ALL = 0xffff,
      RDM_SUB_DEVICE_ROOT = 0, RDM_RESPONSE_TYPE_ACK = 1, RDM_RESPONSE_TYPE_ACK_TIMER = 2,
      RDM_RESPONSE_TYPE_NACK_REASON = 3, RDM_RESPONSE_TYPE_ACK_OVERFLOW = 4,
      RDM_RESPONSE_TYPE_NONE = 0, RDM_RESPONSE_TYPE_INVALID = 0xfe,
      pdMS_TO_TICKS = (\<lambda>ms. ms)\<rparr>"

text \<open>
  A bus layer whose \<open>dmx_send\<close> increments the transaction number of the port, and that
  receives the response of \<open>0001:00000002\<close> to the GET request with transaction number 7: response
  type \<open>NACK_REASON\<close> (3), command class 0x21, PID 0x0060, \<open>pdl = 2\<close>, parameter data
  \<open>00 05\<close>, and the checksum 0x0183 of the 26 bytes before it.
\<close>

definition nack_frame :: "u8 list" where
  "nack_frame =
     [0xcc, 0x01, 0x1a, 0x00, 0x03, 0x00, 0x00, 0x00, 0x04, 0x00, 0x01, 0x00, 0x00, 0x00, 0x02,
      0x07, 0x03, 0x00, 0x00, 0x00, 0x21, 0x00, 0x60, 0x02, 0x00, 0x05, 0x01, 0x83]"

definition nack_env :: bus_env where
  "nack_env =
     \<lparr>own_uid = \<lparr>man_id = 0x0003, dev_id = 0x00000004\<rparr>, send_tn = (\<lambda>tn. tn + 1),
      rx_err = 0, rx_size = 28, rx_data = mem_of_list nack_frame\<rparr>"

text \<open>
  The same response laid out as \<open>rdm_write\<close> lays a frame out and \<open>rdm_read\<close> reads it:
  the \<open>pdl\<close> 2 also at offset 24, the parameter data \<open>00 05\<close> from offset 25, and the
  checksum 0x0186 of the 27 bytes before it.
\<close>

definition nack_frame_25 :: "u8 list" where
  "nack_frame_25 =
     [0xcc, 0x01, 0x1b, 0x00, 0x03, 0x00, 0x00, 0x00, 0x04, 0x00, 0x01, 0x00, 0x00, 0x00, 0x02,
      0x07, 0x03, 0x00, 0x00, 0x00, 0x21, 0x00, 0x60, 0x02, 0x02, 0x00, 0x05, 0x01, 0x86]"

definition nack_env_25 :: bus_env where
  "nack_env_25 =
     \<lparr>own_uid = \<lparr>man_id = 0x0003, dev_id = 0x00000004\<rparr>, send_tn = (\<lambda>tn. tn + 1),
      rx_err = 0, rx_size = 29, rx_data = mem_of_list nack_frame_25\<rparr>"

definition ack0 :: rdm_ack where
  "ack0 = \<lparr>ack_err = 0, ack_type = 0, ack_num = 0\<rparr>"

text \<open>
  \<open>rdm_write\<close>, then \<open>rdm_read\<close> of the same buffer into a zeroed header, a \<open>pdl\<close> of 231
  and a zeroed \<open>pd\<close>: the sizes written and read, the \<open>cc\<close> and \<open>pid\<close> of the header read,
  and the \<open>pdl\<close> read.
\<close>

definition write_then_read ::
  "nat \<Rightarrow> nat \<Rightarrow> mem \<Rightarrow> u8 \<Rightarrow> mem option \<Rightarrow> bus \<Rightarrow> (nat \<times> nat \<times> u8 \<times> u16 \<times> u8 option) option" where
  "write_then_read num_max dmx_num h pdl pd s =
     (case rdm_write num_max dmx_num (Some h) pdl pd s of
        None \<Rightarrow> None
      | Some (written, s1) \<Rightarrow>
          (case rdm_read num_max dmx_num (Some (mem_of_list [])) (Some 231)
                  (Some (mem_of_list [])) s1 of
             Some (rd, Some h', l, p) \<Rightarrow> Some (written, rd, hdr_cc h', hdr_pid h', l)
           | _ \<Rightarrow> None))"

text \<open>
  What a call of \<open>rdm_request\<close> leaves: the size returned, the \<open>tn\<close> of the header, \<open>*pdl_out\<close>,
  the ack, the calls into the bus layer, the first 24 bytes of the buffer of port 0 and
  the transaction number of port 0.
\<close>

definition request_outcome ::
  "(nat \<times> mem option \<times> u8 option \<times> mem option \<times> rdm_ack option \<times> bus) option \<Rightarrow>
     (nat \<times> u8 option \<times> u8 option \<times> rdm_ack option \<times> hal_call list \<times> u8 list \<times> u8 option) option"
  where
  "request_outcome r =
     map_option (\<lambda>(sz, h, l, p, a, s).
       (sz, map_option hdr_tn h, l, a, hal_log s, port_buffer s 0 24, port_tn s 0)) r"

text \<open>The port after the response frame has been received.\<close>

definition nack_bus :: bus where
  "nack_bus = snd (dmx_receive nack_env 0 idle_bus)"

definition nack_bus_25 :: bus where
  "nack_bus_25 = snd (dmx_receive nack_env_25 0 idle_bus)"

section \<open>Integers and bytes\<close>

lemma byte16_le16: "byte16 (le16 b0 b1) 0 = b0" "byte16 (le16 b0 b1) 1 = b1"
  unfolding byte16_def le16_def
  by (rule bit_eqI, auto simp add: bit_simps dest: bit_imp_le_length)+

lemma byte32_le32:
  "byte32 (le32 b0 b1 b2 b3) 0 = b0" "byte32 (le32 b0 b1 b2 b3) 1 = b1"
  "byte32 (le32 b0 b1 b2 b3) 2 = b2" "byte32 (le32 b0 b1 b2 b3) 3 = b3"
  unfolding byte32_def le32_def
  by (rule bit_eqI, auto simp add: bit_simps dest: bit_imp_le_length)+

lemma le16_bytes: "le16 (byte16 x 0) (byte16 x 1) = x"
  unfolding byte16_def le16_def
  apply (rule bit_eqI)
  subgoal for k by (cases "k < 8") (auto simp add: bit_simps)
  done

lemma le32_bytes: "le32 (byte32 x 0) (byte32 x 1) (byte32 x 2) (byte32 x 3) = x"
  unfolding byte32_def le32_def
  apply (rule bit_eqI)
  subgoal for k
    by (cases "k < 8"; cases "k < 16"; cases "k < 24") (auto simp add: bit_simps)
  done

lemma and_or_aa55: "(b OR 0xaa) AND (b OR 0x55) = (b :: u8)"
proof -
  have "(b OR 0xaa) AND (b OR 0x55) = b OR (0xaa AND 0x55)"
    by (rule bit.disj_conj_distrib[symmetric])
  also have "(0xaa AND 0x55 :: u8) = 0" by simp
  finally show ?thesis by simp
qed

lemma read_write_u16: "read_u16 (write_u16 m n v) n = v"
  by (simp add: read_u16_def write_u16_def le16_bytes del: One_nat_def)

lemma read_write_u32: "read_u32 (write_u32 m n v) n = v"
  by (simp add: read_u32_def write_u32_def le32_bytes del: One_nat_def)

lemma read_u16_write_u32: "read_u16 (write_u32 m (n + 2) v) n = read_u16 m n"
  by (simp add: read_u16_def write_u32_def)

lemma fold_upd: "fold (\<lambda>i b. b(i := f i)) [0..<n] m = (\<lambda>i. if i < n then f i else m i)"
  by (induction n) (auto simp: fun_eq_iff)

lemma get_preamble_len_from_eq:
  "k \<le> p \<Longrightarrow> p \<le> 7 \<Longrightarrow> m p = RDM_DELIMITER \<Longrightarrow>
   (\<forall>i. k \<le> i \<and> i < p \<longrightarrow> m i \<noteq> RDM_DELIMITER) \<Longrightarrow> get_preamble_len_from m k = p"
proof (induction m k rule: get_preamble_len_from.induct)
  case (1 d k)
  show ?case
  proof (cases "k = p")
    case True
    with 1 show ?thesis by simp
  next
    case False
    with 1 have "k < p" by simp
    with 1 show ?thesis by (subst get_preamble_len_from.simps) auto
  qed
qed

lemma bswap16_bytes:
  "m n = byte16 x 1 \<Longrightarrow> m (n + 1) = byte16 x 0 \<Longrightarrow> bswap16 (read_u16 m n) = x"
  by (simp add: read_u16_def bswap16_def byte16_le16 le16_bytes del: One_nat_def)

lemma bswap32_bytes:
  "m n = byte32 x 3 \<Longrightarrow> m (n + 1) = byte32 x 2 \<Longrightarrow> m (n + 2) = byte32 x 1 \<Longrightarrow>
   m (n + 3) = byte32 x 0 \<Longrightarrow> bswap32 (read_u32 m n) = x"
  by (simp add: read_u32_def bswap32_def byte32_le32 le32_bytes del: One_nat_def)

lemma uid_of_mem_uidcpy:
  "uid_of_mem (uidcpy dst d src s) d =
     \<lparr>man_id = bswap16 (read_u16 src s), dev_id = bswap32 (read_u32 src (s + 2))\<rparr>"
  unfolding uid_of_mem_def uidcpy_def read_write_u32 read_u16_write_u32 read_write_u16 ..

section \<open>The discovery codec: decoding what was encoded\<close>

text \<open>
  Claim C5. For every UID \<open>u\<close> and every preamble length \<open>p\<close> from 0 to 7, \<open>uid_encode\<close>
  writes \<open>p + 17\<close> bytes, and \<open>uid_decode\<close> of these bytes with size \<open>p + 17\<close> succeeds,
  reports \<open>p + 17\<close> bytes and recovers exactly \<open>u\<close>, whatever was in the destination buffer
  and in the UID before. So the decoder accepts every preamble length from 0 to 7.
\<close>

theorem uid_decode_encode:
  assumes "p \<le> 7"
  shows "fst (uid_encode dst u p) = p + 17 \<and>
         uid_decode u0 (snd (uid_encode dst u p)) (p + 17) = (p + 17, u)"
proof -
  define e where "e = snd (uid_encode dst u p)"
  have pre: "\<forall>i. i < p \<longrightarrow> e i = RDM_PREAMBLE"
    using assms by (simp add: e_def uid_encode_def Let_def fold_upd)
  have del: "e p = RDM_DELIMITER"
    using assms by (simp add: e_def uid_encode_def Let_def fold_upd)
  have gp: "get_preamble_len e = p"
    unfolding get_preamble_len_def
    using assms del pre
    by (intro get_preamble_len_from_eq) (auto simp: RDM_PREAMBLE_def RDM_DELIMITER_def)
  define buf where "buf = fold (\<lambda>i b. b(i := e (p + 1 + 2 * i) AND e (p + 1 + 2 * i + 1))) [0..<6] (\<lambda>_. 0)"
  have buf: "buf 0 = byte16 (man_id u) 1" "buf (0 + 1) = byte16 (man_id u) 0"
    "buf (0 + 2) = byte32 (dev_id u) 3" "buf (0 + 2 + 1) = byte32 (dev_id u) 2"
    "buf (0 + 2 + 2) = byte32 (dev_id u) 1" "buf (0 + 2 + 3) = byte32 (dev_id u) 0"
    using assms by (simp_all add: buf_def fold_upd e_def uid_encode_def Let_def and_or_aa55 del: One_nat_def)
  have m: "bswap16 (read_u16 buf 0) = man_id u"
    using buf(1,2) by (rule bswap16_bytes)
  have d: "bswap32 (read_u32 buf (0 + 2)) = dev_id u"
    using buf(3-6) by (rule bswap32_bytes)
  have "uid_decode u0 e (p + 17) =
          (p + 17, uid_of_mem (uidcpy (uid_to_mem (\<lambda>_. 0) 0 u0) 0 buf 0) 0)"
    using assms gp by (simp add: uid_decode_def Let_def buf_def)
  moreover have "uid_of_mem (uidcpy (uid_to_mem (\<lambda>_. 0) 0 u0) 0 buf 0) 0 = u"
    unfolding uid_of_mem_uidcpy m d by simp
  moreover have "fst (uid_encode dst u p) = p + 17"
    using assms by (simp add: uid_encode_def Let_def)
  ultimately show ?thesis by (simp add: e_def)
qed

theorem uid_decode_encode_witness:
  "(7 :: nat) \<le> 7 \<and>
   fst (uid_encode (mem_of_list []) \<lparr>man_id = 0x5afe, dev_id = 0x12345678\<rparr> 7) = 24 \<and>
   uid_decode RDM_UID_NULL
     (snd (uid_encode (mem_of_list []) \<lparr>man_id = 0x5afe, dev_id = 0x12345678\<rparr> 7)) 24
     = (24, \<lparr>man_id = 0x5afe, dev_id = 0x12345678\<rparr>)"
  using uid_decode_encode [of 7 "mem_of_list []" "\<lparr>man_id = 0x5afe, dev_id = 0x12345678\<rparr>"
      RDM_UID_NULL]
  by simp



section \<open>The checks of \<open>rdm_read\<close>\<close>

lemma fold_checksum:
  "fold (\<lambda>i (c :: u16). c + ucast ((b :: mem) i)) [0..<n] c0 = c0 + (\<Sum>i<n. ucast (b i))"
  by (induction n) (simp_all add: add.assoc)

lemma le16_inject: "le16 a b = le16 c d \<longleftrightarrow> a = c \<and> b = d"
  by (metis byte16_le16)

lemma le16_word_cat: "le16 lo hi = word_cat hi lo"
  unfolding le16_def
  by (rule bit_eqI) (auto simp add: bit_simps dest: bit_imp_le_length)

lemma bswap16_le16: "bswap16 (le16 a b) = le16 b a"
  by (simp add: bswap16_def byte16_le16 del: One_nat_def)

lemma start_code_ok:
  "read_u16 m 0 = (ucast RDM_SC OR push_bit 8 (ucast RDM_SUB_SC)) \<longleftrightarrow>
     m 0 = 0xcc \<and> m 1 = 0x01"
  using le16_inject [of "m 0" "m 1" RDM_SC RDM_SUB_SC]
  by (simp add: read_u16_def le16_def RDM_SC_def RDM_SUB_SC_def)

lemma stored_checksum: "bswap16 (read_u16 m n) = word_cat (m n) (m (n + 1))"
  by (simp only: read_u16_def bswap16_le16) (simp only: le16_word_cat)

text \<open>
  Claim C10. When the first two bytes of the port buffer are not 0xCC 0x01, or the 16-bit
  sum of the bytes \<open>buffer[0..MSG_LEN-1]\<close> is not the big-endian number stored at
  \<open>buffer[MSG_LEN]\<close> and \<open>buffer[MSG_LEN + 1]\<close>, \<open>rdm_read\<close> returns 0 and what is behind
  \<open>header\<close>, \<open>pdl\<close> and \<open>pd\<close> is as before (\<open>MSG_LEN\<close> is \<open>buffer[2]\<close>).
\<close>

theorem rdm_read_error_atomic:
  assumes "dmx_driver s dmx_num = Some driver" and "b = buffer driver"
    and "b 0 \<noteq> 0xcc \<or> b 1 \<noteq> 0x01
         \<or> (\<Sum>i<unat (b 2). ucast (b i)) \<noteq> (word_cat (b (unat (b 2))) (b (unat (b 2) + 1)) :: u16)"
  shows "rdm_read num_max dmx_num header pdl pd s = Some (0, header, pdl, pd)"
proof -
  have "read_u16 b 0 \<noteq> (ucast RDM_SC OR push_bit 8 (ucast RDM_SUB_SC))
        \<or> fold (\<lambda>i (c :: u16). c + ucast (b i)) [0..<unat (b 2)] 0
            \<noteq> bswap16 (read_u16 b (unat (b 2)))"
    using assms(3) unfolding start_code_ok stored_checksum fold_checksum by simp
  then show ?thesis
    using assms(1) unfolding rdm_read_def assms(2) by (auto simp add: Let_def)
qed

theorem rdm_read_error_atomic_witness:
  "dmx_driver idle_bus 0 = Some idle_driver \<and> buffer idle_driver 0 \<noteq> 0xcc \<and>
   rdm_read 3 0 (Some get_request) (Some 231) (Some (mem_of_list [9])) idle_bus
     = Some (0, Some get_request, Some 231, Some (mem_of_list [9]))"
proof -
  have d: "dmx_driver idle_bus 0 = Some idle_driver"
    by (simp add: idle_bus_def)
  have b: "buffer idle_driver 0 \<noteq> 0xcc"
    by (simp add: idle_driver_def mem_of_list_def)
  show ?thesis
    using d b
      rdm_read_error_atomic [OF d refl, of 3 "Some get_request" "Some 231" "Some (mem_of_list [9])"]
    by simp
qed

section \<open>Format strings the parser rejects\<close>

lemma parse_header_format: "rdm_param_parse header_format = Some (0, False)"
  by (simp add: header_format_def rdm_param_parse_def parse_field_def parse_literal_def
      isxdigit_def deref_def)

lemma pd_emplace_header_format:
  "pd_emplace destination dest_size header_format source src_size encode_nulls =
     Some (0, destination)"
  by (simp add: pd_emplace_def parse_header_format)

text \<open>
  When \<open>rdm_param_parse\<close> reports a syntax error, by returning 0 or, for a variable-length
  string that is not at the end, by returning -1 (\<open>0xffffffff\<close> as a \<open>size_t\<close>, -1 again in
  the \<open>int\<close> of \<open>pd_emplace\<close>), \<open>pd_emplace\<close> returns 0 and the destination is as before.
\<close>

lemma pd_emplace_rejected:
  assumes "rdm_param_parse format = Some (r, sg)" and "r = 0 \<or> r = - 1"
  shows "pd_emplace destination dest_size format source src_size encode_nulls
           = Some (0, destination)"
  using assms by (auto simp add: pd_emplace_def)

lemma parse_variable_not_at_end: "rdm_param_parse ''ab'' = Some (- 1, False)"
  by (simp add: rdm_param_parse_def parse_field_def parse_ascii_def isdigit_def deref_def NUL_def)

lemma pd_emplace_variable_not_at_end:
  "pd_emplace destination dest_size ''ab'' source src_size encode_nulls = Some (0, destination)"
  using parse_variable_not_at_end by (rule pd_emplace_rejected) simp

text \<open>
  Claim C9, at a failing input. The format string \<open>a2x\<close> is not of the grammar: \<open>x\<close> is no
  field. Behind the length of an ASCII field the parser sets \<open>f\<close> to \<open>end_ptr\<close> and the loop
  steps over the character there, unread: \<open>rdm_param_parse\<close> returns 2, and \<open>pd_emplace\<close>
  copies two bytes and returns 2.
\<close>

theorem pd_emplace_unknown_symbol:
  "rdm_param_parse ''a2x'' = Some (2, False) \<and>
   map_option (\<lambda>r. (fst r, map (snd r) [0..<2]))
     (pd_emplace (mem_of_list []) 2 ''a2x'' (Some (mem_of_list [0x41, 0x42])) 2 False)
   = Some (2, [0x41, 0x42])"
  by code_simp

section \<open>The length of what \<open>pd_emplace\<close> writes\<close>

lemma sint_small: "S \<le> 231 \<Longrightarrow> sint (of_nat S :: u32) = int S"
proof -
  assume s: "S \<le> 231"
  then have a: "take_bit 32 S = S"
    by (simp add: take_bit_nat_eq_self)
  from s have b: "signed_take_bit 31 (int S) = int S"
    by (simp add: signed_take_bit_int_eq_self)
  show ?thesis
    by (simp add: sint_uint unsigned_of_nat a b)
qed

lemma not_xdigit_h: "\<not> isxdigit (CHR ''h'')" "\<not> isxdigit (CHR ''H'')"
  by (simp_all add: isxdigit_def)

lemma half_up: "n div 2 + n mod 2 = (n + 1) div (2 :: nat)"
  by presburger

lemma parse_literal_ok:
  assumes "list_all isxdigit ds" "length ds \<le> 16" "t = CHR ''h'' \<or> t = CHR ''H''"
  shows "parse_literal (ds @ t # rest) sg = (Inr ((length ds + 1) div 2, t # rest), sg)"
proof -
  have nt: "\<not> isxdigit t" using assms(3) not_xdigit_h by auto
  have tw: "takeWhile isxdigit (ds @ t # rest) = ds"
    using assms(1) nt by (simp add: takeWhile_append2 list_all_iff)
  show ?thesis
    using assms(2,3) unfolding parse_literal_def tw Let_def
    by (auto simp add: half_up deref_def)
qed

lemma parse_field_token:
  assumes "c \<in> set ''bBwWdDuU''"
  shows "parse_field c rest p sg = (Inr (token_size (Field c), c # rest), sg)"
  using assms by (auto simp add: parse_field_def NUL_def)

lemma parse_loop_token:
  assumes "token_ok t" "p + token_size t \<le> 231"
  shows "parse_loop (token_str t @ rest) p sg = parse_loop rest (p + token_size t) sg"
proof (cases t)
  case (Field c)
  then show ?thesis
    using assms parse_field_token [of c rest p sg] by simp
next
  case (Literal ds h)
  then have "parse_field (CHR ''#'') (ds @ h # rest) p sg
      = (Inr ((length ds + 1) div 2, h # rest), sg)"
    using assms(1) parse_literal_ok [of ds h rest sg] by (simp add: parse_field_def)
  then show ?thesis
    using Literal assms(2) by simp
qed

lemma parse_loop_tokens:
  "list_all token_ok ts \<Longrightarrow> p + tokens_size ts \<le> 231 \<Longrightarrow>
   parse_loop (tokens_str ts @ rest) p sg = parse_loop rest (p + tokens_size ts) sg"
proof (induction ts arbitrary: p)
  case Nil
  then show ?case by (simp add: tokens_str_def tokens_size_def)
next
  case (Cons t ts)
  have "parse_loop (tokens_str (t # ts) @ rest) p sg
      = parse_loop (token_str t @ (tokens_str ts @ rest)) p sg"
    by (simp add: tokens_str_def)
  also have "\<dots> = parse_loop (tokens_str ts @ rest) (p + token_size t) sg"
    using Cons.prems by (intro parse_loop_token) (simp_all add: tokens_size_def)
  also have "\<dots> = parse_loop rest (p + token_size t + tokens_size ts) sg"
    using Cons.prems by (intro Cons.IH) (simp_all add: tokens_size_def)
  finally show ?case by (simp add: tokens_size_def add.assoc)
qed

lemma parse_loop_ending:
  assumes "ending_ok e" "p + ending_size e \<le> 231"
  shows "parse_loop (ending_str e) p sg = Some (of_nat (p + ending_size e), sg \<or> ending_single e)"
  using assms
  by (cases e) (auto simp add: parse_field_def deref_def NUL_def)

lemma emplace_field_token:
  assumes "c \<in> set ''bBwWdDuU''"
  shows "\<exists>d'. emplace_field en sz (Some src) c rest n d
           = Some (Continue (n + token_size (Field c)) d')"
  using assms by (auto simp add: emplace_field_def)

lemma emplace_f_token: "c \<in> set ''bBwWdDuU'' \<Longrightarrow> emplace_f c rest = c # rest"
  by (auto simp add: emplace_f_def)

lemma strtol_literal:
  assumes "list_all isxdigit ds" "t = CHR ''h'' \<or> t = CHR ''H''"
  shows "snd (strtol (ds @ t # rest) 16) = t # rest"
proof -
  have nt: "\<not> is_digit_of 16 t"
    using assms(2) not_xdigit_h by (auto simp add: is_digit_of_def)
  have "dropWhile (is_digit_of 16) (ds @ t # rest) = t # rest"
    using assms(1) nt by (simp add: dropWhile_append2 list_all_iff is_digit_of_def)
  then show ?thesis by (simp add: strtol_def Let_def)
qed

lemma emplace_literal_ok:
  assumes "list_all isxdigit ds" "length ds \<le> 16" "t = CHR ''h'' \<or> t = CHR ''H''"
  shows "\<exists>d'. emplace_literal (ds @ t # rest) n d
           = Some (Continue (n + (length ds + 1) div 2) d')"
proof -
  have "(length ds + 1) div 2 \<le> 8" using assms(2) by simp
  then show ?thesis
    unfolding emplace_literal_def strtol_literal [OF assms(1,3)] Let_def
    by (simp add: half_up)
qed

lemma emplace_fields_token:
  assumes "token_ok t"
  shows "\<exists>d'. emplace_fields en sz (Some src) (token_str t @ rest) n d
           = emplace_fields en sz (Some src) rest (n + token_size t) d'"
proof (cases t)
  case (Field c)
  then have c: "c \<in> set ''bBwWdDuU''" using assms by simp
  obtain d' where "emplace_field en sz (Some src) c rest n d
      = Some (Continue (n + token_size (Field c)) d')"
    using emplace_field_token [OF c] by blast
  then have "emplace_fields en sz (Some src) (c # rest) n d
      = emplace_fields en sz (Some src) rest (n + token_size (Field c)) d'"
    by (simp add: emplace_f_token [OF c])
  then show ?thesis using Field by auto
next
  case (Literal ds h)
  then have ok: "list_all isxdigit ds" "length ds \<le> 16" "h = CHR ''h'' \<or> h = CHR ''H''"
    using assms by simp_all
  obtain d' where "emplace_literal (ds @ h # rest) n d
      = Some (Continue (n + (length ds + 1) div 2) d')"
    using emplace_literal_ok [OF ok] by blast
  then have "emplace_fields en sz (Some src) (CHR ''#'' # ds @ h # rest) n d
      = emplace_fields en sz (Some src) rest (n + (length ds + 1) div 2) d'"
    by (simp add: emplace_field_def emplace_f_def strtol_literal [OF ok(1,3)])
  then show ?thesis using Literal by auto
qed

lemma emplace_fields_tokens:
  "list_all token_ok ts \<Longrightarrow>
   \<exists>d'. emplace_fields en sz (Some src) (tokens_str ts @ rest) n d
          = emplace_fields en sz (Some src) rest (n + tokens_size ts) d'"
proof (induction ts arbitrary: n d)
  case Nil
  show ?case
    by (rule exI [of _ d]) (simp add: tokens_str_def tokens_size_def)
next
  case (Cons t ts)
  have tk: "token_ok t" "list_all token_ok ts"
    using Cons.prems by simp_all
  obtain d1 where 1: "emplace_fields en sz (Some src) (token_str t @ (tokens_str ts @ rest)) n d
      = emplace_fields en sz (Some src) (tokens_str ts @ rest) (n + token_size t) d1"
    using emplace_fields_token [OF tk(1)] by blast
  obtain d2 where 2: "emplace_fields en sz (Some src) (tokens_str ts @ rest) (n + token_size t) d1
      = emplace_fields en sz (Some src) rest (n + token_size t + tokens_size ts) d2"
    using Cons.IH [OF tk(2)] by blast
  show ?case
    using 1 2 by (auto simp add: tokens_str_def tokens_size_def add.assoc)
qed

lemma emplace_fields_ending:
  assumes "ending_ok e"
    and "en \<or> \<not> ending_optional e \<or> \<not> uid_is_null (uid_of_mem src n)"
  shows "\<exists>d'. emplace_fields en sz (Some src) (ending_str e) n d = Some (n + ending_size e, d')"
  using assms
  by (cases e) (auto simp add: emplace_field_def emplace_f_def)

lemma emplace_fields_format:
  assumes "list_all token_ok ts" "ending_ok e"
    and "en \<or> \<not> ending_optional e \<or> \<not> uid_is_null (uid_of_mem src (n + tokens_size ts))"
  shows "\<exists>d'. emplace_fields en sz (Some src) (format_of ts e) n d
           = Some (n + format_size ts e, d')"
proof -
  obtain d1 where 1: "emplace_fields en sz (Some src) (tokens_str ts @ ending_str e) n d
      = emplace_fields en sz (Some src) (ending_str e) (n + tokens_size ts) d1"
    using emplace_fields_tokens [OF assms(1)] by blast
  obtain d2 where 2: "emplace_fields en sz (Some src) (ending_str e) (n + tokens_size ts) d1
      = Some (n + tokens_size ts + ending_size e, d2)"
    using emplace_fields_ending [OF assms(2,3)] by blast
  show ?thesis
    using 1 2 by (simp add: format_of_def format_size_def add.assoc)
qed

lemma emplace_params_format:
  assumes "list_all token_ok ts" "ending_ok e" "en \<or> \<not> ending_optional e"
  shows "\<exists>d'. emplace_params k en sz (Some src) (format_of ts e) n d
           = Some (n + k * format_size ts e, d')"
proof (induction k arbitrary: n d)
  case 0
  then show ?case by simp
next
  case (Suc k)
  obtain d1 where 1: "emplace_fields en sz (Some src) (format_of ts e) n d
      = Some (n + format_size ts e, d1)"
    using emplace_fields_format [OF assms(1,2)] assms(3) by blast
  obtain d2 where "emplace_params k en sz (Some src) (format_of ts e) (n + format_size ts e) d1
      = Some (n + format_size ts e + k * format_size ts e, d2)"
    using Suc.IH by blast
  then show ?case using 1 by (simp add: add.assoc)
qed

lemma emplace_params_once:
  assumes "list_all token_ok ts" "ending_ok e"
    and "en \<or> \<not> ending_optional e \<or> \<not> uid_is_null (uid_of_mem src (tokens_size ts))"
  shows "\<exists>d'. emplace_params 1 en sz (Some src) (format_of ts e) 0 d
           = Some (format_size ts e, d')"
proof -
  obtain d1 where "emplace_fields en sz (Some src) (format_of ts e) 0 d
      = Some (0 + format_size ts e, d1)"
    using emplace_fields_format [OF assms(1,2), of en src 0] assms(3) by auto
  then show ?thesis by simp
qed

lemma rdm_param_parse_format:
  assumes "list_all token_ok ts" "ending_ok e" "1 \<le> format_size ts e" "format_size ts e \<le> 231"
  shows "rdm_param_parse (format_of ts e) = Some (of_nat (format_size ts e), ending_single e)"
proof -
  have ne: "format_of ts e \<noteq> []"
  proof
    assume "format_of ts e = []"
    then have "ts = []" "ending_str e = []"
      by (cases ts; cases "hd ts"; simp add: format_of_def tokens_str_def)+
    then have "format_size ts e = 0"
      by (cases e) (simp_all add: format_size_def tokens_size_def)
    with assms(3) show False by simp
  qed
  have "rdm_param_parse (format_of ts e) = parse_loop (tokens_str ts @ ending_str e) 0 False"
    using ne by (simp add: rdm_param_parse_def) (simp add: format_of_def)
  also have "\<dots> = parse_loop (ending_str e) (0 + tokens_size ts) False"
    using assms(1,4) by (intro parse_loop_tokens) (simp_all add: format_size_def)
  also have "\<dots> = Some (of_nat (0 + tokens_size ts + ending_size e), False \<or> ending_single e)"
    using assms(2,4) by (intro parse_loop_ending) (simp_all add: format_size_def)
  finally show ?thesis
    by (simp add: format_size_def)
qed

text \<open>
  Without ASCII fields the length is as the spec has it. For a format string of fields
  \<open>b\<close>, \<open>w\<close>, \<open>d\<close>, \<open>u\<close> and terminated integer literals, closed by nothing, by \<open>$\<close> or by
  an optional UID (with or without \<open>$\<close>) that does not stop the copy early, whose size is
  between 1 and 231, the parser returns the size of the format, and \<open>pd_emplace\<close> returns
  that size times the number of passes, for both values of \<open>encode_nulls\<close>: one pass for a
  format closed by \<open>$\<close> or an optional UID, else the smaller of the two buffer sizes (the
  source's at most 231) divided by the size of the format.
\<close>

lemma pd_emplace_no_ascii:
  assumes "list_all token_ok ts" and "ending_ok e"
    and "1 \<le> format_size ts e" and "format_size ts e \<le> 231"
    and "encode_nulls \<or> \<not> ending_optional e
         \<or> \<not> uid_is_null (uid_of_mem src (tokens_size ts))"
  shows "rdm_param_parse (format_of ts e) = Some (of_nat (format_size ts e), ending_single e) \<and>
    (\<exists>d. pd_emplace destination dest_size (format_of ts e) (Some src) src_size encode_nulls
       = Some (format_size ts e *
           (if ending_single e then 1
            else min dest_size (min src_size 231) div format_size ts e), d))"
proof -
  let ?S = "format_size ts e"
  let ?sz = "min dest_size (min src_size 231)"
  have p: "rdm_param_parse (format_of ts e) = Some (of_nat ?S, ending_single e)"
    using assms(1-4) by (rule rdm_param_parse_format)
  have s: "sint (of_nat ?S :: u32) = int ?S"
    using assms(4) by (rule sint_small)
  have sz: "(if dest_size < (if 231 < src_size then 231 else src_size) then dest_size
             else (if 231 < src_size then 231 else src_size)) = ?sz"
    by (simp add: min_def)
  have "\<exists>d. emplace_params (if ending_single e then 1 else ?sz div ?S) encode_nulls ?sz
          (Some src) (format_of ts e) 0 destination
        = Some (?S * (if ending_single e then 1 else ?sz div ?S), d)"
  proof (cases "ending_single e")
    case True
    then show ?thesis
      using emplace_params_once [OF assms(1,2,5), of ?sz destination] by simp
  next
    case False
    then have "\<not> ending_optional e" by (cases e) simp_all
    then show ?thesis
      using False
        emplace_params_format [OF assms(1,2), of encode_nulls "?sz div ?S" ?sz src 0 destination]
      by (simp add: mult.commute)
  qed
  moreover have "pd_emplace destination dest_size (format_of ts e) (Some src) src_size
        encode_nulls
      = emplace_params (if ending_single e then 1 else ?sz div ?S) encode_nulls ?sz
          (Some src) (format_of ts e) 0 destination"
    using assms(3) by (auto simp add: pd_emplace_def p s Let_def min_def)
  ultimately have e: "\<exists>d. pd_emplace destination dest_size (format_of ts e) (Some src) src_size
        encode_nulls = Some (?S * (if ending_single e then 1 else ?sz div ?S), d)"
    by simp
  show ?thesis
    using p e by simp
qed

text \<open>The header format with the terminator of its first literal in place has size 23.\<close>

lemma pd_emplace_header_tokens:
  "rdm_param_parse ''#cc01h#18huubbbwbw'' = Some (23, False) \<and>
   (\<exists>d. pd_emplace (mem_of_list []) 513 ''#cc01h#18huubbbwbw'' (Some get_request) 24 False
      = Some (23, d))"
proof -
  have a: "list_all token_ok header_tokens"
    by code_simp
  have b: "format_size header_tokens No_end = 23"
    by code_simp
  have c: "format_of header_tokens No_end = ''#cc01h#18huubbbwbw''"
    by code_simp
  show ?thesis
    using a b c
      pd_emplace_no_ascii [OF a, of No_end False get_request "mem_of_list []" 513 24]
    by simp
qed

text \<open>
  Claim C6, at three failing inputs, each with a destination filled with 0xEE. Every format
  is of the grammar, has an ASCII field of fixed length and no other, and no optional UID.

  The format \<open>a2$\<close> with both sizes 2 and \<open>encode_nulls\<close> true: the parser returns 2, so
  there is one pass; \<open>pd_emplace\<close> copies 41 42, writes a terminator at offset 2, behind
  the two bytes of the destination, and returns 3, not 2.

  The format \<open>ba5$\<close> with both sizes 6 and \<open>encode_nulls\<close> true: the parser returns 6, so
  there is one pass; \<open>pd_emplace\<close> returns 7, and the terminator, written at
  \<open>destination + len\<close> and not at \<open>destination + n + len\<close>, replaces the last byte 45 of the
  string at offset 5: the five bytes are not copied as they are.

  The format \<open>a2b\<close> with both sizes 6 and \<open>encode_nulls\<close> false: the parser steps over the
  \<open>b\<close> behind the length and returns 2, so there are three passes; every pass copies three
  bytes, and \<open>pd_emplace\<close> returns 9, not \<open>2 * 3\<close>, having read and written nine bytes of
  buffers of size 6.
\<close>

theorem pd_emplace_fixed_ascii_overrun:
  "rdm_param_parse ''a2$'' = Some (2, False) \<and>
   map_option (\<lambda>r. (fst r, map (snd r) [0..<4]))
     (pd_emplace (\<lambda>_. 0xee) 2 ''a2$'' (Some (mem_of_list [0x41, 0x42])) 2 True)
   = Some (3, [0x41, 0x42, 0x00, 0xee]) \<and>
   rdm_param_parse ''ba5$'' = Some (6, False) \<and>
   map_option (\<lambda>r. (fst r, map (snd r) [0..<8]))
     (pd_emplace (\<lambda>_. 0xee) 6 ''ba5$''
        (Some (mem_of_list [0x10, 0x41, 0x42, 0x43, 0x44, 0x45])) 6 True)
   = Some (7, [0x10, 0x41, 0x42, 0x43, 0x44, 0x00, 0xee, 0xee]) \<and>
   rdm_param_parse ''a2b'' = Some (2, False) \<and>
   map_option (\<lambda>r. (fst r, map (snd r) [0..<10]))
     (pd_emplace (\<lambda>_. 0xee) 6 ''a2b''
        (Some (mem_of_list [0x41, 0x42, 0x43, 0x44, 0x45, 0x46, 0x47, 0x48, 0x49])) 6 False)
   = Some (9, [0x41, 0x42, 0x43, 0x44, 0x45, 0x46, 0x47, 0x48, 0x49, 0xee])"
  by code_simp

section \<open>The transaction engine\<close>

lemma rdm_write_Some:
  "\<exists>written s1. rdm_write num_max dmx_num header pdl pd s = Some (written, s1)
      \<and> hal_log s1 = hal_log s"
  by (simp add: rdm_write_def pd_emplace_header_format Let_def split: option.split)

lemma rdm_read_Some:
  "\<exists>rd l p. rdm_read num_max dmx_num (Some h) pdl pd s = Some (rd, Some h, l, p)"
  by (simp add: rdm_read_def pd_emplace_header_format Let_def split: option.split)

lemma handle_response_invalid:
  assumes "RDM_RESPONSE_TYPE_INVALID K \<noteq> RDM_RESPONSE_TYPE_ACK K"
    and "RDM_RESPONSE_TYPE_INVALID K \<noteq> RDM_RESPONSE_TYPE_ACK_TIMER K"
    and "RDM_RESPONSE_TYPE_INVALID K \<noteq> RDM_RESPONSE_TYPE_NACK_REASON K"
  shows "\<exists>l p. handle_response K dmx_num sz req pdl_out pd_out ack s
           = Some (sz, Some req, l, p, set_ack (RDM_RESPONSE_TYPE_INVALID K) 0 ack, s)"
proof -
  obtain rd l p where r: "rdm_read (DMX_NUM_MAX K) dmx_num (Some req) pdl_out pd_out s
      = Some (rd, Some req, l, p)"
    using rdm_read_Some by blast
  show ?thesis
    using assms unfolding handle_response_def r by (simp add: Let_def)
qed

lemma request_header_fields:
  "hdr_dest_uid (request_header E dmx_num driver h) = hdr_dest_uid h"
  "hdr_cc (request_header E dmx_num driver h) = hdr_cc h"
  "hdr_pid (request_header E dmx_num driver h) = hdr_pid h"
  "hdr_tn (request_header E dmx_num driver h) = rdm_tn driver"
  by (simp_all add: request_header_def Let_def hdr_dest_uid_def hdr_cc_def hdr_pid_def hdr_tn_def
      set_message_count_def set_tn_def set_src_uid_def set_port_id_def uid_to_mem_def
      uid_of_mem_def write_u16_def write_u32_def read_u16_def read_u32_def)

text \<open>
  Claim C7. \<open>rdm_request\<close> returns 0, and leaves the port, the log of calls into the bus
  layer (nothing is transmitted) and everything behind its pointers as they were, when one
  of its preconditions fails: the header is \<open>NULL\<close>; \<open>pd_in\<close> is \<open>NULL\<close> with a \<open>pdl_in\<close> that
  is not 0; \<open>pd_out\<close> is \<open>NULL\<close> with a \<open>*pdl_out\<close> that is not 0; \<open>dest_uid\<close> is null;
  \<open>src_uid\<close> is a broadcast UID; \<open>cc\<close> is none of \<open>DISC_COMMAND\<close>, \<open>GET_COMMAND\<close>,
  \<open>SET_COMMAND\<close>; or \<open>sub_device\<close> is neither below 513 nor \<open>ALL\<close> with a \<open>cc\<close> other than
  \<open>GET_COMMAND\<close>.
\<close>

theorem rdm_request_precondition:
  assumes "header = None
      \<or> (pd_in = None \<and> pdl_in \<noteq> 0)
      \<or> (pd_out = None \<and> pdl_out \<noteq> None \<and> pdl_out \<noteq> Some 0)
      \<or> (\<exists>h. header = Some h \<and>
            (uid_is_null (hdr_dest_uid h)
             \<or> uid_is_broadcast (hdr_src_uid h)
             \<or> (hdr_cc h \<noteq> RDM_CC_DISC_COMMAND \<and> hdr_cc h \<noteq> RDM_CC_GET_COMMAND
                  \<and> hdr_cc h \<noteq> RDM_CC_SET_COMMAND)
             \<or> \<not> (hdr_sub_device h < 513
                   \<or> (hdr_sub_device h = RDM_SUB_DEVICE_ALL K
                        \<and> hdr_cc h \<noteq> RDM_CC_GET_COMMAND))))"
  shows "rdm_request K E dmx_num header pdl_in pd_in pdl_out pd_out ack s
           = Some (0, header, pdl_out, pd_out, ack, s)"
proof (cases header)
  case None
  then show ?thesis by (simp add: rdm_request_def Let_def)
next
  case (Some h)
  with assms have "\<not> (pd_in \<noteq> None \<or> pdl_in = 0)
      \<or> \<not> (pd_out \<noteq> None \<or> (pdl_out = None \<or> pdl_out = Some 0))
      \<or> \<not> request_header_ok K h"
    unfolding request_header_ok_def by auto
  with Some show ?thesis
    unfolding rdm_request_def Let_def by auto
qed

theorem rdm_request_precondition_witness:
  "uid_is_null (hdr_dest_uid (mem_of_list [])) \<and>
   rdm_request example_defs nack_env 0 (Some (mem_of_list [])) 0 None None None None idle_bus
     = Some (0, Some (mem_of_list []), None, None, None, idle_bus)"
proof -
  have n: "uid_is_null (hdr_dest_uid (mem_of_list []))"
    by code_simp
  show ?thesis
    using n rdm_request_precondition [of "Some (mem_of_list [])" None 0 None None example_defs
        nack_env 0 None idle_bus]
    by simp
qed

text \<open>
  Claim C8. A call of \<open>rdm_request\<close> that passes the checks, on a port with a driver, calls
  \<open>dmx_receive\<close> exactly when \<open>dest_uid\<close> is not a broadcast UID or the request is a
  \<open>DISC_UNIQUE_BRANCH\<close> of command class \<open>DISC_COMMAND\<close>. Otherwise its calls into the bus
  layer are \<open>dmx_send\<close> of the size \<open>rdm_write\<close> returned and then \<open>dmx_wait_sent\<close>; the ack,
  when the pointer is not \<open>NULL\<close>, has type \<open>NONE\<close> and number 0 and keeps its \<open>err\<close>; the
  header is the request as it was written, \<open>*pdl_out\<close> and \<open>pd_out\<close> are as before, and the
  size returned is the size \<open>rdm_write\<close> returned. (The value of \<open>INVALID\<close> is taken to
  differ from those of \<open>ACK\<close>, \<open>ACK_TIMER\<close> and \<open>NACK_REASON\<close>.)
\<close>

theorem rdm_request_response_expected:
  assumes "dmx_num < DMX_NUM_MAX K"
    and "pd_in \<noteq> None \<or> pdl_in = 0"
    and "pd_out \<noteq> None \<or> pdl_out = None \<or> pdl_out = Some 0"
    and "request_header_ok K h"
    and "dmx_driver s dmx_num = Some driver"
    and "RDM_RESPONSE_TYPE_INVALID K \<noteq> RDM_RESPONSE_TYPE_ACK K"
    and "RDM_RESPONSE_TYPE_INVALID K \<noteq> RDM_RESPONSE_TYPE_ACK_TIMER K"
    and "RDM_RESPONSE_TYPE_INVALID K \<noteq> RDM_RESPONSE_TYPE_NACK_REASON K"
  shows "\<exists>sz h' l' p' a' s' calls written s1.
     rdm_request K E dmx_num (Some h) pdl_in pd_in pdl_out pd_out ack s
       = Some (sz, h', l', p', a', s') \<and>
     hal_log s' = hal_log s @ calls \<and>
     rdm_write (DMX_NUM_MAX K) dmx_num (Some (request_header E dmx_num driver h)) pdl_in pd_in s
       = Some (written, s1) \<and>
     (Receive dmx_num \<in> set calls \<longleftrightarrow>
        \<not> uid_is_broadcast (hdr_dest_uid h)
        \<or> (hdr_pid h = RDM_PID_DISC_UNIQUE_BRANCH K \<and> hdr_cc h = RDM_CC_DISC_COMMAND)) \<and>
     (\<not> (\<not> uid_is_broadcast (hdr_dest_uid h)
         \<or> (hdr_pid h = RDM_PID_DISC_UNIQUE_BRANCH K \<and> hdr_cc h = RDM_CC_DISC_COMMAND)) \<longrightarrow>
        calls = [Send dmx_num written, Wait_sent dmx_num] \<and>
        a' = (case ack of
                None \<Rightarrow> None
              | Some a \<Rightarrow>
                  Some \<lparr>ack_err = ack_err a, ack_type = RDM_RESPONSE_TYPE_NONE K, ack_num = 0\<rparr>) \<and>
        h' = Some (request_header E dmx_num driver h) \<and> l' = pdl_out \<and> p' = pd_out \<and>
        sz = written)"
proof -
  let ?h3 = "request_header E dmx_num driver h"
  obtain written s1 where
    w: "rdm_write (DMX_NUM_MAX K) dmx_num (Some ?h3) pdl_in pd_in s = Some (written, s1)"
    and l1: "hal_log s1 = hal_log s"
    using rdm_write_Some by blast
  have ex: "response_expected K ?h3 \<longleftrightarrow>
      \<not> uid_is_broadcast (hdr_dest_uid h)
       \<or> (hdr_pid h = RDM_PID_DISC_UNIQUE_BRANCH K \<and> hdr_cc h = RDM_CC_DISC_COMMAND)"
    by (simp add: response_expected_def request_header_fields)
  have req: "rdm_request K E dmx_num (Some h) pdl_in pd_in pdl_out pd_out ack s =
      (let s2 = dmx_send E dmx_num written s1 in
       if response_expected K ?h3 then
         (let ((err, sz), s3) = dmx_receive E dmx_num s2;
              ack1 = map_option (\<lambda>a. a\<lparr>ack_err := err\<rparr>) ack
          in if err \<noteq> 0
             then Some (sz, Some ?h3, pdl_out, pd_out,
                    set_ack (RDM_RESPONSE_TYPE_INVALID K) 0 ack1, s3)
             else if hdr_pid ?h3 \<noteq> RDM_PID_DISC_UNIQUE_BRANCH K
             then handle_response K dmx_num sz ?h3 pdl_out pd_out ack1 s3
             else (case handle_discovery K dmx_num sz ?h3 ack1 s3 of
                     (sz', h4, ack2, s4) \<Rightarrow>
                       Some (sz', Some h4, pdl_out, pd_out, ack2, s4)))
       else Some (written, Some ?h3, pdl_out, pd_out,
              set_ack (RDM_RESPONSE_TYPE_NONE K) 0 ack,
              dmx_wait_sent dmx_num s2))"
    using assms(1-5) by (simp add: rdm_request_def w Let_def)
  show ?thesis
    unfolding ex [symmetric]
  proof (cases "response_expected K ?h3")
    case False
    then show "\<exists>sz h' l' p' a' s' calls written s1.
       rdm_request K E dmx_num (Some h) pdl_in pd_in pdl_out pd_out ack s
         = Some (sz, h', l', p', a', s') \<and>
       hal_log s' = hal_log s @ calls \<and>
       rdm_write (DMX_NUM_MAX K) dmx_num (Some ?h3) pdl_in pd_in s = Some (written, s1) \<and>
       (Receive dmx_num \<in> set calls \<longleftrightarrow> response_expected K ?h3) \<and>
       (\<not> response_expected K ?h3 \<longrightarrow>
          calls = [Send dmx_num written, Wait_sent dmx_num] \<and>
          a' = (case ack of
                  None \<Rightarrow> None
                | Some a \<Rightarrow>
                    Some \<lparr>ack_err = ack_err a, ack_type = RDM_RESPONSE_TYPE_NONE K,
                      ack_num = 0\<rparr>) \<and>
          h' = Some ?h3 \<and> l' = pdl_out \<and> p' = pd_out \<and>
          sz = written)"
      using w l1 unfolding req
      by (cases ack)
        (simp_all add: Let_def dmx_send_def dmx_wait_sent_def log_call_def set_ack_def)
  next
    case True
    define s2 where "s2 = dmx_send E dmx_num written s1"
    define s3 where "s3 = snd (dmx_receive E dmx_num s2)"
    have l3: "hal_log s3 = hal_log s @ [Send dmx_num written, Receive dmx_num]"
      by (simp add: s3_def s2_def dmx_receive_def dmx_send_def log_call_def l1)
    have "\<exists>sz h' l' p' a' s' calls.
       rdm_request K E dmx_num (Some h) pdl_in pd_in pdl_out pd_out ack s
         = Some (sz, h', l', p', a', s') \<and>
       hal_log s' = hal_log s @ calls \<and> Receive dmx_num \<in> set calls"
    proof -
      consider (err) "rx_err E \<noteq> 0"
        | (resp) "rx_err E = 0" "hdr_pid ?h3 \<noteq> RDM_PID_DISC_UNIQUE_BRANCH K"
        | (disc) "rx_err E = 0" "hdr_pid ?h3 = RDM_PID_DISC_UNIQUE_BRANCH K"
        by blast
      then show ?thesis
      proof cases
        case err
        then have "rdm_request K E dmx_num (Some h) pdl_in pd_in pdl_out pd_out ack s
            = Some (rx_size E, Some ?h3, pdl_out, pd_out,
                set_ack (RDM_RESPONSE_TYPE_INVALID K) 0
                  (map_option (\<lambda>a. a\<lparr>ack_err := rx_err E\<rparr>) ack), s3)"
          using True unfolding req
          by (simp add: Let_def dmx_receive_def s3_def s2_def)
        then show ?thesis using l3 by simp
      next
        case resp
        obtain l p where hr: "handle_response K dmx_num (rx_size E) ?h3 pdl_out pd_out
            (map_option (\<lambda>a. a\<lparr>ack_err := rx_err E\<rparr>) ack) s3
            = Some (rx_size E, Some ?h3, l, p,
                set_ack (RDM_RESPONSE_TYPE_INVALID K) 0
                  (map_option (\<lambda>a. a\<lparr>ack_err := rx_err E\<rparr>) ack), s3)"
          using handle_response_invalid [OF assms(6-8)] by blast
        have "rdm_request K E dmx_num (Some h) pdl_in pd_in pdl_out pd_out ack s
            = Some (rx_size E, Some ?h3, l, p,
                set_ack (RDM_RESPONSE_TYPE_INVALID K) 0
                  (map_option (\<lambda>a. a\<lparr>ack_err := rx_err E\<rparr>) ack), s3)"
          using True resp hr unfolding req
          by (simp add: Let_def dmx_receive_def s3_def s2_def)
        then show ?thesis using l3 by simp
      next
        case disc
        obtain sz' h4 ack2 s4 where hd: "handle_discovery K dmx_num (rx_size E) ?h3
            (map_option (\<lambda>a. a\<lparr>ack_err := rx_err E\<rparr>) ack) s3 = (sz', h4, ack2, s4)"
          by (metis prod_cases4)
        have l4: "hal_log s4 = hal_log s3 @
            [Read_slots dmx_num (if rx_size E > 24 then 24 else rx_size E)]"
          using hd
          by (auto simp add: handle_discovery_def Let_def dmx_read_def log_call_def
              split: prod.splits if_splits)
        have "rdm_request K E dmx_num (Some h) pdl_in pd_in pdl_out pd_out ack s
            = Some (sz', Some h4, pdl_out, pd_out, ack2, s4)"
          using True disc hd unfolding req
          by (simp add: Let_def dmx_receive_def s3_def s2_def)
        then show ?thesis using l3 l4 by simp
      qed
    qed
    then show "\<exists>sz h' l' p' a' s' calls written s1.
       rdm_request K E dmx_num (Some h) pdl_in pd_in pdl_out pd_out ack s
         = Some (sz, h', l', p', a', s') \<and>
       hal_log s' = hal_log s @ calls \<and>
       rdm_write (DMX_NUM_MAX K) dmx_num (Some ?h3) pdl_in pd_in s = Some (written, s1) \<and>
       (Receive dmx_num \<in> set calls \<longleftrightarrow> response_expected K ?h3) \<and>
       (\<not> response_expected K ?h3 \<longrightarrow>
          calls = [Send dmx_num written, Wait_sent dmx_num] \<and>
          a' = (case ack of
                  None \<Rightarrow> None
                | Some a \<Rightarrow>
                    Some \<lparr>ack_err = ack_err a, ack_type = RDM_RESPONSE_TYPE_NONE K,
                      ack_num = 0\<rparr>) \<and>
          h' = Some ?h3 \<and> l' = pdl_out \<and> p' = pd_out \<and>
          sz = written)"
      using True w by auto
  qed
qed


theorem rdm_request_response_expected_witness:
  "request_header_ok example_defs get_request \<and>
   request_header_ok example_defs broadcast_request \<and>
   dmx_driver idle_bus 0 = Some idle_driver \<and>
   \<not> uid_is_broadcast (hdr_dest_uid get_request) \<and>
   uid_is_broadcast (hdr_dest_uid broadcast_request) \<and>
   hdr_cc broadcast_request = RDM_CC_SET_COMMAND \<and>
   (\<exists>sz h' l' p' a' s' calls.
      rdm_request example_defs nack_env 0 (Some get_request) 0 None (Some 2)
        (Some (mem_of_list [])) (Some ack0) idle_bus = Some (sz, h', l', p', a', s') \<and>
      hal_log s' = hal_log idle_bus @ calls \<and> Receive 0 \<in> set calls) \<and>
   (\<exists>s'.
      rdm_request example_defs nack_env 0 (Some broadcast_request) 0 None None None
        (Some \<lparr>ack_err = 4, ack_type = 9, ack_num = 9\<rparr>) idle_bus
        = Some (2, Some (request_header nack_env 0 idle_driver broadcast_request), None, None,
            Some \<lparr>ack_err = 4, ack_type = 0, ack_num = 0\<rparr>, s') \<and>
      hal_log s' = [Send 0 2, Wait_sent 0])"
proof -
  have ok: "request_header_ok example_defs get_request"
    by code_simp
  have ok2: "request_header_ok example_defs broadcast_request"
    by code_simp
  have d: "dmx_driver idle_bus 0 = Some idle_driver"
    by (simp add: idle_bus_def)
  have nb: "\<not> uid_is_broadcast (hdr_dest_uid get_request)"
    by code_simp
  have bc: "uid_is_broadcast (hdr_dest_uid broadcast_request)"
    by code_simp
  have cc: "hdr_cc broadcast_request = RDM_CC_SET_COMMAND"
    by code_simp
  have k: "0 < DMX_NUM_MAX example_defs"
    "RDM_RESPONSE_TYPE_INVALID example_defs \<noteq> RDM_RESPONSE_TYPE_ACK example_defs"
    "RDM_RESPONSE_TYPE_INVALID example_defs \<noteq> RDM_RESPONSE_TYPE_ACK_TIMER example_defs"
    "RDM_RESPONSE_TYPE_INVALID example_defs \<noteq> RDM_RESPONSE_TYPE_NACK_REASON example_defs"
    by (simp_all add: example_defs_def)
  have none: "RDM_RESPONSE_TYPE_NONE example_defs = 0"
    by (simp add: example_defs_def)
  have l0: "hal_log idle_bus = []"
    by (simp add: idle_bus_def)
  have w: "map_option fst
      (rdm_write (DMX_NUM_MAX example_defs) 0
         (Some (request_header nack_env 0 idle_driver broadcast_request)) 0 None idle_bus)
      = Some 2"
    by code_simp
  have r: "\<exists>sz h' l' p' a' s' calls.
      rdm_request example_defs nack_env 0 (Some get_request) 0 None (Some 2)
        (Some (mem_of_list [])) (Some ack0) idle_bus = Some (sz, h', l', p', a', s') \<and>
      hal_log s' = hal_log idle_bus @ calls \<and> Receive 0 \<in> set calls"
    using nb
      rdm_request_response_expected [OF k(1) _ _ ok d k(2-4), of None 0 "Some (mem_of_list [])"
        "Some 2" nack_env "Some ack0"]
    by auto
  have b: "\<exists>s'.
      rdm_request example_defs nack_env 0 (Some broadcast_request) 0 None None None
        (Some \<lparr>ack_err = 4, ack_type = 9, ack_num = 9\<rparr>) idle_bus
        = Some (2, Some (request_header nack_env 0 idle_driver broadcast_request), None, None,
            Some \<lparr>ack_err = 4, ack_type = 0, ack_num = 0\<rparr>, s') \<and>
      hal_log s' = [Send 0 2, Wait_sent 0]"
    using bc w none l0
      rdm_request_response_expected [OF k(1) _ _ ok2 d k(2-4), of None 0 None None nack_env
        "Some \<lparr>ack_err = 4, ack_type = 9, ack_num = 9\<rparr>"]
    by (auto simp add: cc RDM_CC_SET_COMMAND_def RDM_CC_DISC_COMMAND_def)
  from ok ok2 d nb bc cc r b show ?thesis by simp
qed

section \<open>The header format and what follows from it\<close>

text \<open>
  The format string of the header, \<open>#cc01#18huubbbwbw\<close>, has no \<open>h\<close> behind its first
  literal, and \<open>rdm_param_parse\<close> returns 0 for it (lemma \<open>parse_header_format\<close>). So the
  \<open>pd_emplace\<close> of \<open>rdm_write\<close> and of \<open>rdm_read\<close> copies nothing: the header never reaches
  the buffer, \<open>MSG_LEN\<close> is whatever \<open>buffer[2]\<close> was plus \<open>pdl\<close>, and \<open>rdm_read\<close> leaves the
  header of the caller as it was.
\<close>

text \<open>
  Claim C1, at a failing input. On a port with an all-zero buffer that is not sending,
  \<open>rdm_write\<close> of the GET request with no parameter data returns 2, and \<open>rdm_read\<close> of the
  same buffer returns 0 and recovers nothing: the header read has \<open>cc = 0\<close> and
  \<open>pid = 0\<close>, and \<open>*pdl\<close> stays 231.
\<close>

theorem rdm_write_read_loses_frame:
  "write_then_read 3 0 get_request 0 None idle_bus = Some (2, 0, 0, 0, Some 231)"
  by code_simp

text \<open>
  Claim C2, at the input of the claim. \<open>rdm_write\<close> of the header of the scenario, with no
  parameter data, to a port with an all-zero buffer returns 2 and leaves a buffer that
  starts 00 CD 00 00: the checksum 0x00CD of start code and sub-start code at offset 0,
  and no byte of the header.
\<close>

theorem rdm_write_leaves_header_out:
  "map_option (\<lambda>r. (fst r, port_buffer (snd r) 0 24))
     (rdm_write 3 0 (Some get_request) 0 None idle_bus)
   = Some (2, [0x00, 0xcd, 0, 0, 0, 0, 0, 0, 0, 0, 0, 0, 0, 0, 0, 0, 0, 0, 0, 0, 0, 0, 0, 0])"
  by code_simp

theorem rdm_write_leaves_header_out_witness:
  "map_option (\<lambda>r. port_buffer (snd r) 0 24) (rdm_write 3 0 (Some get_request) 0 None idle_bus)
   \<noteq> Some [0xcc, 0x01, 0x18, 0x00, 0x01, 0x00, 0x00, 0x00, 0x02, 0x00, 0x03, 0x00, 0x00, 0x00,
         0x04, 0x05, 0x01, 0x00, 0x00, 0x00, 0x20, 0x00, 0x60, 0x00]"
  using rdm_write_leaves_header_out
  by (cases "rdm_write 3 0 (Some get_request) 0 None idle_bus") auto

text \<open>
  Claim C3, at two failing inputs. The frame received is valid (\<open>rdm_read\<close> accepts it and
  returns its size) and answers the GET request with \<open>NACK_REASON\<close> and the reason 5;
  \<open>pd_out\<close> is not \<open>NULL\<close> and \<open>*pdl_out\<close> is 2. With the parameter data behind the 24
  bytes of the header, and with the parameter data from offset 25, where \<open>rdm_read\<close> copies
  it from (\<open>*pdl_out\<close> stays 2), \<open>rdm_request\<close> reports \<open>INVALID\<close> (0xfe) and the number 0.
\<close>

theorem rdm_request_nack_is_invalid:
  "map_option fst (rdm_read 3 0 None None None nack_bus) = Some 28 \<and>
   request_outcome
     (rdm_request example_defs nack_env 0 (Some get_request) 0 None (Some 2)
        (Some (mem_of_list [])) (Some ack0) idle_bus)
   = Some (28, Some 7, Some 0, Some \<lparr>ack_err = 0, ack_type = 0xfe, ack_num = 0\<rparr>,
       [Send 0 2, Receive 0],
       [0xcc, 0x01, 0x1a, 0x00, 0x03, 0x00, 0x00, 0x00, 0x04, 0x00, 0x01, 0x00, 0x00, 0x00, 0x02,
        0x07, 0x03, 0x00, 0x00, 0x00, 0x21, 0x00, 0x60, 0x02], Some 8) \<and>
   map_option fst (rdm_read 3 0 None None None nack_bus_25) = Some 29 \<and>
   request_outcome
     (rdm_request example_defs nack_env_25 0 (Some get_request) 0 None (Some 2)
        (Some (mem_of_list [])) (Some ack0) idle_bus)
   = Some (29, Some 7, Some 2, Some \<lparr>ack_err = 0, ack_type = 0xfe, ack_num = 0\<rparr>,
       [Send 0 2, Receive 0],
       [0xcc, 0x01, 0x1b, 0x00, 0x03, 0x00, 0x00, 0x00, 0x04, 0x00, 0x01, 0x00, 0x00, 0x00, 0x02,
        0x07, 0x03, 0x00, 0x00, 0x00, 0x21, 0x00, 0x60, 0x02], Some 8)"
  by code_simp

theorem rdm_request_nack_is_invalid_witness:
  "map_option (\<lambda>(sz, tn, l, a, r). a)
     (request_outcome
       (rdm_request example_defs nack_env 0 (Some get_request) 0 None (Some 2)
          (Some (mem_of_list [])) (Some ack0) idle_bus))
   \<noteq> Some (Some \<lparr>ack_err = 0, ack_type = RDM_RESPONSE_TYPE_NACK_REASON example_defs,
         ack_num = 5\<rparr>)"
  using rdm_request_nack_is_invalid by (simp add: example_defs_def)

text \<open>
  Claim C4, at a failing input. A broadcast SET request on the port whose transaction
  number is 7, with a \<open>dmx_send\<close> that increments it: \<open>rdm_request\<close> succeeds, puts 7 into
  the \<open>tn\<close> of the header of the caller, and sends 2 bytes, 00 CD; byte 15 of the buffer,
  the place of \<open>tn\<close> in a frame, is 0.
\<close>

theorem rdm_request_frame_without_tn:
  "request_outcome
     (rdm_request example_defs nack_env 0 (Some broadcast_request) 0 None None None
        (Some ack0) idle_bus)
   = Some (2, Some 7, None, Some \<lparr>ack_err = 0, ack_type = 0, ack_num = 0\<rparr>,
       [Send 0 2, Wait_sent 0],
       [0x00, 0xcd, 0, 0, 0, 0, 0, 0, 0, 0, 0, 0, 0, 0, 0, 0, 0, 0, 0, 0, 0, 0, 0, 0], Some 8)"
  by code_simp


theorem rdm_request_frame_without_tn_witness:
  "map_option (\<lambda>(sz, tn, l, a, calls, buf, ptn). (tn, buf ! 15))
     (request_outcome
       (rdm_request example_defs nack_env 0 (Some broadcast_request) 0 None None None
          (Some ack0) idle_bus))
   = Some (Some 7, 0)"
  using rdm_request_frame_without_tn by simp

end
